theory Spec2Isabelle
  imports Complex_Main "HOL-Library.Word"
begin

unbundle bit_operations_syntax

section \<open>The foreign heap and the engine's function table\<close>

text \<open>
  The binding (\<^verbatim>\<open>lib/encoder.js\<close>, \<^verbatim>\<open>lib/decoder.js\<close>, \<^verbatim>\<open>lib/utils.js\<close>) drives
  the compiled codec through the object \<^verbatim>\<open>libopus\<close>: a byte heap (\<^verbatim>\<open>HEAPU8\<close> and its
  16 and 32 bit views) and a table of functions working on addresses of that heap.
  The codec itself is not part of the repository, so it is a parameter of every
  definition below: a record of functions from the heap to a status and a new heap.
  Every call through the table is appended to a log, so that "the engine is called with
  these arguments" and "no engine call is made" are statements about the log.

  JavaScript numbers are taken to be integers where they are sample counts, lengths and
  status codes; the \<^verbatim>\<open>channels\<close> option of the constructors is any number. Addresses are
  natural numbers and every address is backed by a byte.
\<close>

type_synonym byte = "8 word"
type_synonym addr = nat
type_synonym memory = "addr \<Rightarrow> byte"

datatype event =
    Call_malloc nat addr
  | Call_free addr
  | Call_opus_strerror int
  | Call_opus_decoder_get_size int
  | Call_opus_decoder_init addr int int
  | Call_opus_decode addr addr int addr int int
  | Call_opus_decode_float addr addr int addr int int
  | Call_opus_decoder_ctl addr int addr
  | Call_opus_encoder_get_size int
  | Call_opus_encoder_init addr int int int
  | Call_opus_encode addr addr int addr int
  | Call_opus_encode_float addr addr int addr int

record world =
  heap :: memory
  live :: "(addr \<times> nat) list"
  trace :: "event list"

record engine =
  place :: "(addr \<times> nat) list \<Rightarrow> nat \<Rightarrow> addr"
  opus_strerror :: "int \<Rightarrow> string"
  opus_decoder_get_size :: "int \<Rightarrow> nat"
  opus_decoder_init :: "addr \<Rightarrow> int \<Rightarrow> int \<Rightarrow> memory \<Rightarrow> int \<times> memory"
  opus_decode :: "addr \<Rightarrow> addr \<Rightarrow> int \<Rightarrow> addr \<Rightarrow> int \<Rightarrow> int \<Rightarrow> memory \<Rightarrow> int \<times> memory"
  opus_decode_float :: "addr \<Rightarrow> addr \<Rightarrow> int \<Rightarrow> addr \<Rightarrow> int \<Rightarrow> int \<Rightarrow> memory \<Rightarrow> int \<times> memory"
  opus_decoder_ctl :: "addr \<Rightarrow> int \<Rightarrow> addr \<Rightarrow> memory \<Rightarrow> int \<times> memory"
  opus_encoder_get_size :: "int \<Rightarrow> nat"
  opus_encoder_init :: "addr \<Rightarrow> int \<Rightarrow> int \<Rightarrow> int \<Rightarrow> memory \<Rightarrow> int \<times> memory"
  opus_encode :: "addr \<Rightarrow> addr \<Rightarrow> int \<Rightarrow> addr \<Rightarrow> int \<Rightarrow> memory \<Rightarrow> int \<times> memory"
  opus_encode_float :: "addr \<Rightarrow> addr \<Rightarrow> int \<Rightarrow> addr \<Rightarrow> int \<Rightarrow> memory \<Rightarrow> int \<times> memory"

definition logged :: "event \<Rightarrow> (memory \<Rightarrow> int \<times> memory) \<Rightarrow> world \<Rightarrow> int \<times> world" where
  "logged ev f w =
     (let (r, h) = f (heap w) in (r, w\<lparr>heap := h, trace := trace w @ [ev]\<rparr>))"

text \<open>\<^verbatim>\<open>libopus._malloc(n)\<close>: the allocator picks the address; the block becomes live.\<close>

definition malloc :: "engine \<Rightarrow> nat \<Rightarrow> world \<Rightarrow> addr \<times> world" where
  "malloc E n w =
     (let p = place E (live w) n
      in (p, w\<lparr>live := live w @ [(p, n)], trace := trace w @ [Call_malloc n p]\<rparr>))"

text \<open>\<^verbatim>\<open>libopus._free(p)\<close>: the block at \<open>p\<close> is live no more.\<close>

definition free :: "addr \<Rightarrow> world \<Rightarrow> world" where
  "free p w = w\<lparr>live := filter (\<lambda>b. fst b \<noteq> p) (live w), trace := trace w @ [Call_free p]\<rparr>"

definition libopus_opus_decode ::
  "engine \<Rightarrow> addr \<Rightarrow> addr \<Rightarrow> int \<Rightarrow> addr \<Rightarrow> int \<Rightarrow> int \<Rightarrow> world \<Rightarrow> int \<times> world" where
  "libopus_opus_decode E st data len pcm frame_size fec =
     logged (Call_opus_decode st data len pcm frame_size fec)
       (opus_decode E st data len pcm frame_size fec)"

definition libopus_opus_decode_float ::
  "engine \<Rightarrow> addr \<Rightarrow> addr \<Rightarrow> int \<Rightarrow> addr \<Rightarrow> int \<Rightarrow> int \<Rightarrow> world \<Rightarrow> int \<times> world" where
  "libopus_opus_decode_float E st data len pcm frame_size fec =
     logged (Call_opus_decode_float st data len pcm frame_size fec)
       (opus_decode_float E st data len pcm frame_size fec)"

definition libopus_opus_encode ::
  "engine \<Rightarrow> addr \<Rightarrow> addr \<Rightarrow> int \<Rightarrow> addr \<Rightarrow> int \<Rightarrow> world \<Rightarrow> int \<times> world" where
  "libopus_opus_encode E st pcm frame_size data max_bytes =
     logged (Call_opus_encode st pcm frame_size data max_bytes)
       (opus_encode E st pcm frame_size data max_bytes)"

definition libopus_opus_encode_float ::
  "engine \<Rightarrow> addr \<Rightarrow> addr \<Rightarrow> int \<Rightarrow> addr \<Rightarrow> int \<Rightarrow> world \<Rightarrow> int \<times> world" where
  "libopus_opus_encode_float E st pcm frame_size data max_bytes =
     logged (Call_opus_encode_float st pcm frame_size data max_bytes)
       (opus_encode_float E st pcm frame_size data max_bytes)"

subsection \<open>Views of the heap\<close>

text \<open>\<^verbatim>\<open>HEAPU8.set(bytes, p)\<close>, \<^verbatim>\<open>HEAPU8.slice(a, b)\<close> and \<^verbatim>\<open>HEAPU8.subarray(a, b)\<close>
  (a view that every caller reads at once).\<close>

definition HEAPU8_set :: "byte list \<Rightarrow> addr \<Rightarrow> memory \<Rightarrow> memory" where
  "HEAPU8_set bs p h = (\<lambda>a. if p \<le> a \<and> a < p + length bs then bs ! (a - p) else h a)"

definition HEAPU8_slice :: "addr \<Rightarrow> addr \<Rightarrow> memory \<Rightarrow> byte list" where
  "HEAPU8_slice a b h = map h [a..<b]"

definition HEAPU8_subarray :: "addr \<Rightarrow> addr \<Rightarrow> memory \<Rightarrow> byte list" where
  "HEAPU8_subarray a b h = map h [a..<b]"

text \<open>Typed arrays store their elements little-endian; a \<^verbatim>\<open>Float32Array\<close> element
  is modelled by its 32 bit pattern.\<close>

definition le_bytes16 :: "16 word \<Rightarrow> byte list" where
  "le_bytes16 v = [ucast v, ucast (drop_bit 8 v)]"

definition le_bytes32 :: "32 word \<Rightarrow> byte list" where
  "le_bytes32 v = [ucast v, ucast (drop_bit 8 v), ucast (drop_bit 16 v), ucast (drop_bit 24 v)]"

fun bytes_to16 :: "byte list \<Rightarrow> 16 word list" where
  "bytes_to16 (a # b # rest) = (ucast a OR push_bit 8 (ucast b)) # bytes_to16 rest"
| "bytes_to16 _ = []"

fun bytes_to32 :: "byte list \<Rightarrow> 32 word list" where
  "bytes_to32 (a # b # c # d # rest) =
     (ucast a OR push_bit 8 (ucast b) OR push_bit 16 (ucast c) OR push_bit 24 (ucast d))
       # bytes_to32 rest"
| "bytes_to32 _ = []"

text \<open>\<^verbatim>\<open>HEAP16.set(pcm, i)\<close> and \<^verbatim>\<open>HEAPF32.set(pcm, i)\<close>: element index \<open>i\<close> of the view.\<close>

definition HEAP16_set :: "16 word list \<Rightarrow> nat \<Rightarrow> memory \<Rightarrow> memory" where
  "HEAP16_set xs i h = HEAPU8_set (concat (map le_bytes16 xs)) (2 * i) h"

definition HEAPF32_set :: "32 word list \<Rightarrow> nat \<Rightarrow> memory \<Rightarrow> memory" where
  "HEAPF32_set xs i h = HEAPU8_set (concat (map le_bytes32 xs)) (4 * i) h"

text \<open>\<^verbatim>\<open>HEAPU32[i] = v\<close> and the signed read \<^verbatim>\<open>HEAP32[i]\<close>.\<close>

definition HEAPU32_put :: "nat \<Rightarrow> nat \<Rightarrow> memory \<Rightarrow> memory" where
  "HEAPU32_put i v h = HEAPU8_set (le_bytes32 (word_of_nat v)) (4 * i) h"

definition HEAP32_get :: "nat \<Rightarrow> memory \<Rightarrow> int" where
  "HEAP32_get i h =
     (let u = uint (h (4 * i)) + 256 * uint (h (4 * i + 1)) + 65536 * uint (h (4 * i + 2))
              + 16777216 * uint (h (4 * i + 3))
      in if u < 2147483648 then u else u - 4294967296)"

section \<open>Values and errors of the binding\<close>

datatype jsval =
    Undefined
  | Null
  | Boolean bool
  | Number int
  | Text string
  | Buffer "byte list"
  | Int16Array "16 word list"
  | Float32Array "32 word list"
  | Object

text \<open>What \<^verbatim>\<open>data || ...\<close> replaces: the falsy values. Every object, an empty
  \<^verbatim>\<open>Buffer\<close> included, is truthy.\<close>

fun falsy :: "jsval \<Rightarrow> bool" where
  "falsy Undefined = True"
| "falsy Null = True"
| "falsy (Boolean b) = (\<not> b)"
| "falsy (Number n) = (n = 0)"
| "falsy (Text s) = (s = [])"
| "falsy (Buffer bs) = False"
| "falsy (Int16Array xs) = False"
| "falsy (Float32Array xs) = False"
| "falsy Object = False"

text \<open>
  A number as the comparisons \<^verbatim>\<open><\<close> and \<^verbatim>\<open>>\<close> and the engine's integer parameters
  read it: a rational (every double is one) or \<^verbatim>\<open>NaN\<close>. A value that is no number is
  read through its number: 2 for \<^verbatim>\<open>'2'\<close>, 1 for \<^verbatim>\<open>true\<close>, 0 for \<^verbatim>\<open>null\<close>, \<^verbatim>\<open>NaN\<close> for
  \<^verbatim>\<open>'abc'\<close>. The infinities compare like the numbers beyond every bound and are left
  out. A comparison with \<^verbatim>\<open>NaN\<close> is false.
\<close>

datatype jsnum = Finite rat | NaN

fun js_less :: "jsnum \<Rightarrow> rat \<Rightarrow> bool" where
  "js_less (Finite q) k = (q < k)"
| "js_less NaN k = False"

fun js_greater :: "jsnum \<Rightarrow> rat \<Rightarrow> bool" where
  "js_greater (Finite q) k = (q > k)"
| "js_greater NaN k = False"

text \<open>What a function of the engine receives for a number handed to an integer
  parameter (\<^verbatim>\<open>x|0\<close>): the number cut towards zero and wrapped to 32 bits, 0 for
  \<^verbatim>\<open>NaN\<close>.\<close>

fun ToInt32 :: "jsnum \<Rightarrow> int" where
  "ToInt32 (Finite q) =
     (let t = (if 0 \<le> q then \<lfloor>q\<rfloor> else \<lceil>q\<rceil>);
          m = t mod 4294967296
      in if m < 2147483648 then m else m - 4294967296)"
| "ToInt32 NaN = 0"

text \<open>\<^verbatim>\<open>new Error(msg)\<close>, \<^verbatim>\<open>new TypeError(msg)\<close>, a bare string thrown (the Encoder's
  constructor), \<^verbatim>\<open>new TypeError('mode cannot be ' + mode)\<close>, and two errors of the
  runtime: the \<^verbatim>\<open>RangeError\<close> of a typed array built at an offset its element width
  does not divide, and the \<^verbatim>\<open>TypeError\<close> of reading a property of \<^verbatim>\<open>null\<close> or
  \<^verbatim>\<open>undefined\<close>.\<close>

datatype error =
    Error string
  | TypeError string
  | Thrown string
  | ModeTypeError jsval
  | RangeError string
  | NativeTypeError

section \<open>utils.js\<close>

definition pcm_len :: nat where
  "pcm_len = 4 * 2 * 120 * 48"

definition data_len :: nat where
  "data_len = 120 * 512"

record utils =
  p_pcm :: addr
  p_data :: addr

definition p_pcm_len :: nat where
  "p_pcm_len = pcm_len"

definition p_data_len :: nat where
  "p_data_len = data_len"

text \<open>Loading the module allocates the two scratch regions.\<close>

definition utils_load :: "engine \<Rightarrow> world \<Rightarrow> utils \<times> world" where
  "utils_load E w =
     (let (pcm, w1) = malloc E pcm_len w;
          (dat, w2) = malloc E data_len w1
      in (\<lparr>p_pcm = pcm, p_data = dat\<rparr>, w2))"

definition stringifyError :: "engine \<Rightarrow> int \<Rightarrow> world \<Rightarrow> string \<times> world" where
  "stringifyError E errorId w =
     (opus_strerror E errorId, w\<lparr>trace := trace w @ [Call_opus_strerror errorId]\<rparr>)"

section \<open>The codec handle shared by encoder.js and decoder.js\<close>

text \<open>
  The constructor leaves \<^verbatim>\<open>_unsafe\<close> and \<^verbatim>\<open>_state\<close> in one of two shapes: unsafe with
  the address of the live foreign block, or safe with a private byte array. The handle
  keeps exactly these two shapes; \<^verbatim>\<open>_unsafe\<close> is read off the shape.

  \<^verbatim>\<open>_channels\<close> is the \<^verbatim>\<open>channels\<close> option as given: the type \<open>'c\<close> is \<open>jsnum\<close> for the
  handle a constructor makes. \<open>withState\<close>, \<open>destroy\<close> and the duration query do not
  read it and work on every handle. \<open>encode\<close> and \<open>decode\<close> divide by it; they are given
  for the handles whose channel count is an integer (\<open>counted\<close>), where the quotient the
  engine receives is an integer quotient; for a count such as 1.5 it is a quotient of
  doubles.
\<close>

datatype codec_state = Pointer addr | Snapshot "byte list"

record 'c handle =
  rate :: int
  channels :: 'c
  state :: codec_state

record 'c encoder = "'c handle" +
  application :: int

type_synonym decoder = "int handle"

definition count_of :: "jsnum \<Rightarrow> int option" where
  "count_of c =
     (case c of
        Finite q \<Rightarrow> if of_int \<lfloor>q\<rfloor> = q then Some \<lfloor>q\<rfloor> else None
      | NaN \<Rightarrow> None)"

definition counted :: "(jsnum, 'h) handle_scheme \<Rightarrow> (int, 'h) handle_scheme option" where
  "counted h =
     (case count_of (channels h) of
        None \<Rightarrow> None
      | Some k \<Rightarrow> Some \<lparr>rate = rate h, channels = k, state = state h, \<dots> = handle.more h\<rparr>)"

fun unsafe :: "codec_state \<Rightarrow> bool" where
  "unsafe (Pointer p) = True"
| "unsafe (Snapshot s) = False"

record options =
  opt_rate :: "int option"
  opt_channels :: "jsnum option"
  opt_application :: "int option"
  opt_unsafe :: "bool option"

definition default :: "'a \<Rightarrow> 'a option \<Rightarrow> 'a" where
  "default d v = (case v of None \<Rightarrow> d | Some x \<Rightarrow> x)"

text \<open>\<^verbatim>\<open>_withState\<close>, the same text in \<^verbatim>\<open>Encoder.prototype\<close> and \<^verbatim>\<open>Decoder.prototype\<close>.
  The \<^verbatim>\<open>finally\<close> block runs whether \<open>func\<close> returns (\<open>Inr\<close>) or throws (\<open>Inl\<close>).\<close>

definition withState ::
  "engine \<Rightarrow> ('c, 'h) handle_scheme \<Rightarrow> (addr \<Rightarrow> world \<Rightarrow> (error + 'a) \<times> world) \<Rightarrow> world
     \<Rightarrow> (error + 'a) \<times> ('c, 'h) handle_scheme \<times> world" where
  "withState E h func w =
     (case state h of
        Pointer p \<Rightarrow> (let (r, w') = func p w in (r, h, w'))
      | Snapshot s \<Rightarrow>
          (let (p, w1) = malloc E (length s) w;
               w2 = w1\<lparr>heap := HEAPU8_set s p (heap w1)\<rparr>;
               (r, w3) = func p w2;
               s' = HEAPU8_subarray p (p + length s) (heap w3);
               w4 = free p w3
           in (r, h\<lparr>state := Snapshot s'\<rparr>, w4)))"

text \<open>\<^verbatim>\<open>destroy\<close>, the same text in both prototypes.\<close>

definition destroy ::
  "('c, 'h) handle_scheme \<Rightarrow> world \<Rightarrow> ('c, 'h) handle_scheme \<times> world" where
  "destroy h w =
     (case state h of
        Pointer p \<Rightarrow> (h, free p w)
      | Snapshot s \<Rightarrow> (h, w))"

section \<open>decoder.js\<close>

text \<open>The constructor. The range test is made on the number \<^verbatim>\<open>opts.channels\<close>; the
  engine's functions receive its integer.\<close>

definition Decoder ::
  "engine \<Rightarrow> options \<Rightarrow> world \<Rightarrow> (error + jsnum handle) \<times> world" where
  "Decoder E opts w =
     (let o_rate = default 48000 (opt_rate opts);
          o_channels = default (Finite 1) (opt_channels opts);
          o_unsafe = default False (opt_unsafe opts)
      in if js_less o_channels 1 \<or> js_greater o_channels 2 then
           (Inl (Error ''channels must be either 1 or 2''), w)
         else if o_rate \<notin> set [8000, 12000, 16000, 24000, 48000] then
           (Inl (Error ''rate can only be 8k, 12k, 16k, 24k or 48k''), w)
         else
           (let size = opus_decoder_get_size E (ToInt32 o_channels);
                w1 = w\<lparr>trace := trace w @ [Call_opus_decoder_get_size (ToInt32 o_channels)]\<rparr>;
                (dec, w2) = malloc E size w1;
                (ret, w3) = logged (Call_opus_decoder_init dec o_rate (ToInt32 o_channels))
                              (opus_decoder_init E dec o_rate (ToInt32 o_channels)) w2
            in if ret \<noteq> 0 then
                 (let w4 = free dec w3;
                      (msg, w5) = stringifyError E ret w4
                  in (Inl (Error msg), w5))
               else if o_unsafe then
                 (Inr \<lparr>rate = o_rate, channels = o_channels, state = Pointer dec\<rparr>, w3)
               else
                 (let s = HEAPU8_slice dec (dec + size) (heap w3);
                      w4 = free dec w3
                  in (Inr \<lparr>rate = o_rate, channels = o_channels, state = Snapshot s\<rparr>, w4))))"

text \<open>\<^verbatim>\<open>_getLastPacketDuration(p_dec)\<close>: control request 4039.\<close>

definition priv_getLastPacketDuration :: "engine \<Rightarrow> addr \<Rightarrow> world \<Rightarrow> (error + int) \<times> world" where
  "priv_getLastPacketDuration E p_dec w =
     (let (p_res, w1) = malloc E 4 w;
          (pp_res, w2) = malloc E 4 w1;
          w3 = w2\<lparr>heap := HEAPU32_put (pp_res div 4) p_res (heap w2)\<rparr>;
          (err, w4) = logged (Call_opus_decoder_ctl p_dec 4039 pp_res)
                        (opus_decoder_ctl E p_dec 4039 pp_res) w3;
          (r, w5) = (if err \<noteq> 0 then
                       (let (msg, w') = stringifyError E err w4 in (Inl (Error msg), w'))
                     else (Inr (HEAP32_get (p_res div 4) (heap w4)), w4))
      in (r, free p_res (free pp_res w5)))"

definition getLastPacketDuration ::
  "engine \<Rightarrow> 'c handle \<Rightarrow> world \<Rightarrow> (error + int) \<times> 'c handle \<times> world" where
  "getLastPacketDuration E h w = withState E h (priv_getLastPacketDuration E) w"

text \<open>The function \<^verbatim>\<open>_decode\<close> hands to \<^verbatim>\<open>_withState\<close>, in two parts. \<open>bps\<close> is the
  sample width and \<open>doDecode\<close> the engine's decode function, as in the source.
  \<open>decode_data\<close> is the body from \<^verbatim>\<open>var ret;\<close> on, for the value \<open>data\<close> has by
  then; \<open>decode_func\<close> is the whole body, starting with
  \<^verbatim>\<open>data = data || self._getLastPacketDuration(p_dec)\<close>.\<close>

definition decode_data ::
  "engine \<Rightarrow> utils \<Rightarrow> decoder \<Rightarrow> jsval \<Rightarrow> nat
     \<Rightarrow> (addr \<Rightarrow> addr \<Rightarrow> int \<Rightarrow> addr \<Rightarrow> int \<Rightarrow> int \<Rightarrow> world \<Rightarrow> int \<times> world)
     \<Rightarrow> addr \<Rightarrow> world \<Rightarrow> (error + byte list) \<times> world" where
  "decode_data E U self data bps doDecode p_dec w1 =
     (let (r, w2) =
        (case data of
           Number n \<Rightarrow>
             if n * int bps > int p_data_len then (Inl (Error ''too much lost data''), w1)
             else (let (ret, w') = doDecode p_dec 0 0 (p_pcm U) n 0 w1 in (Inr ret, w'))
         | Buffer bs \<Rightarrow>
             if length bs > p_data_len then (Inl (Error ''data array too large''), w1)
             else
               (let w' = w1\<lparr>heap := HEAPU8_set bs (p_data U) (heap w1)\<rparr>;
                    maxFrameSize = int p_pcm_len div channels self div int bps;
                    (ret, w'') = doDecode p_dec (p_data U) (int (length bs)) (p_pcm U)
                                   maxFrameSize 0 w'
                in (Inr ret, w''))
         | _ \<Rightarrow> (Inl (TypeError ''data must be number, Buffer or null''), w1))
      in case r of
           Inl e \<Rightarrow> (Inl e, w2)
         | Inr ret \<Rightarrow>
             if ret < 0 then
               (let (msg, w3) = stringifyError E ret w2 in (Inl (Error msg), w3))
             else
               (Inr (HEAPU8_slice (p_pcm U) (p_pcm U + nat ret * bps) (heap w2)), w2))"

definition decode_func ::
  "engine \<Rightarrow> utils \<Rightarrow> decoder \<Rightarrow> jsval \<Rightarrow> nat
     \<Rightarrow> (addr \<Rightarrow> addr \<Rightarrow> int \<Rightarrow> addr \<Rightarrow> int \<Rightarrow> int \<Rightarrow> world \<Rightarrow> int \<times> world)
     \<Rightarrow> addr \<Rightarrow> world \<Rightarrow> (error + byte list) \<times> world" where
  "decode_func E U self data0 bps doDecode p_dec w =
     (if falsy data0 then
        (case priv_getLastPacketDuration E p_dec w of
           (Inl e, w1) \<Rightarrow> (Inl e, w1)
         | (Inr n, w1) \<Rightarrow> decode_data E U self (Number n) bps doDecode p_dec w1)
      else decode_data E U self data0 bps doDecode p_dec w)"

definition priv_decode ::
  "engine \<Rightarrow> utils \<Rightarrow> decoder \<Rightarrow> jsval \<Rightarrow> nat
     \<Rightarrow> (addr \<Rightarrow> addr \<Rightarrow> int \<Rightarrow> addr \<Rightarrow> int \<Rightarrow> int \<Rightarrow> world \<Rightarrow> int \<times> world)
     \<Rightarrow> world \<Rightarrow> (error + byte list) \<times> decoder \<times> world" where
  "priv_decode E U h data bps doDecode w = withState E h (decode_func E U h data bps doDecode) w"

definition decodeInt16 ::
  "engine \<Rightarrow> utils \<Rightarrow> decoder \<Rightarrow> jsval \<Rightarrow> world \<Rightarrow> (error + 16 word list) \<times> decoder \<times> world" where
  "decodeInt16 E U h data w =
     (case priv_decode E U h data 2 (libopus_opus_decode E) w of
        (Inl e, h', w') \<Rightarrow> (Inl e, h', w')
      | (Inr bytes, h', w') \<Rightarrow> (Inr (bytes_to16 bytes), h', w'))"

definition decodeFloat32 ::
  "engine \<Rightarrow> utils \<Rightarrow> decoder \<Rightarrow> jsval \<Rightarrow> world \<Rightarrow> (error + 32 word list) \<times> decoder \<times> world" where
  "decodeFloat32 E U h data w =
     (case priv_decode E U h data 4 (libopus_opus_decode_float E) w of
        (Inl e, h', w') \<Rightarrow> (Inl e, h', w')
      | (Inr bytes, h', w') \<Rightarrow> (Inr (bytes_to32 bytes), h', w'))"

section \<open>encoder.js\<close>

definition VOIP :: int where "VOIP = 2048"
definition AUDIO :: int where "AUDIO = 2049"
definition RESTRICTED_LOWDELAY :: int where "RESTRICTED_LOWDELAY = 2051"

definition Encoder ::
  "engine \<Rightarrow> options \<Rightarrow> world \<Rightarrow> (error + jsnum encoder) \<times> world" where
  "Encoder E opts w =
     (let o_rate = default 48000 (opt_rate opts);
          o_channels = default (Finite 1) (opt_channels opts);
          o_application = default AUDIO (opt_application opts);
          o_unsafe = default False (opt_unsafe opts)
      in if js_less o_channels 1 \<or> js_greater o_channels 2 then
           (Inl (Thrown ''channels must be either 1 or 2''), w)
         else if o_rate \<notin> set [8000, 12000, 16000, 24000, 48000] then
           (Inl (Thrown ''rate can only be 8k, 12k, 16k, 24k or 48k''), w)
         else if o_application \<noteq> VOIP \<and> o_application \<noteq> AUDIO
                 \<and> o_application \<noteq> RESTRICTED_LOWDELAY then
           (Inl (Thrown ''invalid application type''), w)
         else
           (let size = opus_encoder_get_size E (ToInt32 o_channels);
                w1 = w\<lparr>trace := trace w @ [Call_opus_encoder_get_size (ToInt32 o_channels)]\<rparr>;
                (enc, w2) = malloc E size w1;
                (ret, w3) = logged (Call_opus_encoder_init enc o_rate (ToInt32 o_channels)
                                      o_application)
                              (opus_encoder_init E enc o_rate (ToInt32 o_channels)
                                 o_application) w2
            in if ret \<noteq> 0 then
                 (let w4 = free enc w3;
                      (msg, w5) = stringifyError E ret w4
                  in (Inl (Thrown msg), w5))
               else if o_unsafe then
                 (Inr \<lparr>rate = o_rate, channels = o_channels, state = Pointer enc,
                       application = o_application\<rparr>, w3)
               else
                 (let s = HEAPU8_slice enc (enc + size) (heap w3);
                      w4 = free enc w3
                  in (Inr \<lparr>rate = o_rate, channels = o_channels, state = Snapshot s,
                          application = o_application\<rparr>, w4))))"

text \<open>The function \<^verbatim>\<open>encode\<close> hands to \<^verbatim>\<open>_withState\<close>. \<open>samples\<close> is
  \<^verbatim>\<open>pcm.length / this._channels\<close> as the engine receives it: an integer.\<close>

definition encode_func ::
  "engine \<Rightarrow> utils \<Rightarrow> int encoder \<Rightarrow> jsval \<Rightarrow> addr \<Rightarrow> world
     \<Rightarrow> (error + byte list) \<times> world" where
  "encode_func E U self pcm p_enc w =
     (let (r, w1) =
        (case pcm of
           Float32Array xs \<Rightarrow>
             if length xs * 4 > p_pcm_len then (Inl (Error ''pcm array too large''), w)
             else
               (let w' = w\<lparr>heap := HEAPF32_set xs (p_pcm U div 4) (heap w)\<rparr>;
                    samples = int (length xs) div channels self;
                    (len, w'') = libopus_opus_encode_float E p_enc (p_pcm U) samples (p_data U)
                                   (int p_data_len) w'
                in (Inr len, w''))
         | Int16Array xs \<Rightarrow>
             if length xs * 2 > p_pcm_len then (Inl (Error ''pcm array too large''), w)
             else
               (let w' = w\<lparr>heap := HEAP16_set xs (p_pcm U div 2) (heap w)\<rparr>;
                    samples = int (length xs) div channels self;
                    (len, w'') = libopus_opus_encode E p_enc (p_pcm U) samples (p_data U)
                                   (int p_data_len) w'
                in (Inr len, w''))
         | _ \<Rightarrow> (Inl (TypeError ''pcm must be Int16Array or Float32Array''), w))
      in case r of
           Inl e \<Rightarrow> (Inl e, w1)
         | Inr len \<Rightarrow>
             if len < 0 then
               (let (msg, w2) = stringifyError E len w1 in (Inl (Error msg), w2))
             else
               (Inr (HEAPU8_subarray (p_data U) (p_data U + nat len) (heap w1)), w1))"

text \<open>\<^verbatim>\<open>encode\<close> reads \<^verbatim>\<open>pcm.length\<close> first, before \<^verbatim>\<open>_withState\<close>: on \<^verbatim>\<open>null\<close> and
  \<^verbatim>\<open>undefined\<close> that read throws, and nothing else is done.\<close>

definition encode ::
  "engine \<Rightarrow> utils \<Rightarrow> int encoder \<Rightarrow> jsval \<Rightarrow> world
     \<Rightarrow> (error + byte list) \<times> int encoder \<times> world" where
  "encode E U h pcm w =
     (case pcm of
        Undefined \<Rightarrow> (Inl NativeTypeError, h, w)
      | Null \<Rightarrow> (Inl NativeTypeError, h, w)
      | _ \<Rightarrow> withState E h (encode_func E U h pcm) w)"

section \<open>The stream adapters\<close>

datatype sample_mode = Int16 | Float32

text \<open>\<^verbatim>\<open>mode == 'Float32'\<close>: loose equality of a value with a string literal. A
  \<^verbatim>\<open>Buffer\<close> is compared through its text; no number, boolean, typed array or plain
  object is equal to either of the two mode names.\<close>

fun loose_eq :: "jsval \<Rightarrow> string \<Rightarrow> bool" where
  "loose_eq (Text t) s = (t = s)"
| "loose_eq (Buffer bs) s = (map unat bs = map of_char s)"
| "loose_eq v s = False"

definition stream_mode :: "jsval \<Rightarrow> error + sample_mode" where
  "stream_mode mode =
     (if loose_eq mode ''Float32'' then Inr Float32
      else if loose_eq mode ''Int16'' then Inr Int16
      else Inl (ModeTypeError mode))"

text \<open>\<^verbatim>\<open>new EncoderStream(encoder, mode)\<close> and \<^verbatim>\<open>new DecoderStream(decoder, mode)\<close>: the
  stream holds a reference to the handle and the chosen mode.\<close>

definition EncoderStream :: "'c encoder \<Rightarrow> jsval \<Rightarrow> error + sample_mode" where
  "EncoderStream enc mode = stream_mode mode"

definition DecoderStream :: "'c handle \<Rightarrow> jsval \<Rightarrow> error + sample_mode" where
  "DecoderStream dec mode = stream_mode mode"

text \<open>A chunk the encoder's stream is given: a \<^verbatim>\<open>Buffer\<close>, a view of \<open>length bytes\<close>
  bytes at \<open>byteOffset\<close> of its underlying buffer.\<close>

record chunk =
  bytes :: "byte list"
  byteOffset :: nat

fun BYTES_PER_ELEMENT :: "sample_mode \<Rightarrow> nat" where
  "BYTES_PER_ELEMENT Int16 = 2"
| "BYTES_PER_ELEMENT Float32 = 4"

text \<open>\<^verbatim>\<open>new this._mode(chunk.buffer, chunk.byteOffset, chunk.byteLength / BYTES_PER_ELEMENT)\<close>
  where it succeeds: the chunk's bytes read as samples; a fractional length is cut to
  an integer.\<close>

fun reinterpret :: "sample_mode \<Rightarrow> byte list \<Rightarrow> jsval" where
  "reinterpret Int16 chunk = Int16Array (bytes_to16 chunk)"
| "reinterpret Float32 chunk = Float32Array (bytes_to32 chunk)"

text \<open>What a call of \<^verbatim>\<open>_transform\<close> ends in: \<open>Callback (Inl err)\<close> for \<^verbatim>\<open>callback(err)\<close>,
  \<open>Callback (Inr result)\<close> for \<^verbatim>\<open>callback(null, result)\<close>, and \<open>Uncaught err\<close> for an
  exception that leaves \<^verbatim>\<open>_transform\<close> with no callback made.\<close>

datatype outcome = Callback "error + byte list" | Uncaught error

text \<open>The encoder's \<^verbatim>\<open>_transform\<close>. The typed array is built before the \<^verbatim>\<open>try\<close>
  block: at an offset the element width does not divide the constructor throws a
  \<^verbatim>\<open>RangeError\<close>, which nothing catches.\<close>

fun misaligned :: "sample_mode \<Rightarrow> error" where
  "misaligned Int16 = RangeError ''start offset of Int16Array should be a multiple of 2''"
| "misaligned Float32 = RangeError ''start offset of Float32Array should be a multiple of 4''"

definition EncoderStream_transform ::
  "engine \<Rightarrow> utils \<Rightarrow> sample_mode \<Rightarrow> int encoder \<Rightarrow> chunk \<Rightarrow> world
     \<Rightarrow> outcome \<times> int encoder \<times> world" where
  "EncoderStream_transform E U mode enc chunk w =
     (if byteOffset chunk mod BYTES_PER_ELEMENT mode \<noteq> 0 then
        (Uncaught (misaligned mode), enc, w)
      else
        (case encode E U enc (reinterpret mode (bytes chunk)) w of
           (r, enc', w') \<Rightarrow> (Callback r, enc', w')))"

text \<open>The decoder's \<^verbatim>\<open>_transform\<close>, all of it inside \<^verbatim>\<open>try\<close>: the value handed to
  \<^verbatim>\<open>callback\<close> is \<open>Inl err\<close> for \<^verbatim>\<open>callback(err)\<close> and \<open>Inr result\<close> for
  \<^verbatim>\<open>callback(null, result)\<close>. The chunk is handed on as the \<^verbatim>\<open>Buffer\<close> it is.\<close>

definition DecoderStream_transform ::
  "engine \<Rightarrow> utils \<Rightarrow> sample_mode \<Rightarrow> decoder \<Rightarrow> byte list \<Rightarrow> world
     \<Rightarrow> (error + byte list) \<times> decoder \<times> world" where
  "DecoderStream_transform E U mode dec chunk w =
     (case mode of
        Int16 \<Rightarrow>
          (case decodeInt16 E U dec (Buffer chunk) w of
             (Inl e, dec', w') \<Rightarrow> (Inl e, dec', w')
           | (Inr array, dec', w') \<Rightarrow> (Inr (concat (map le_bytes16 array)), dec', w'))
      | Float32 \<Rightarrow>
          (case decodeFloat32 E U dec (Buffer chunk) w of
             (Inl e, dec', w') \<Rightarrow> (Inl e, dec', w')
           | (Inr array, dec', w') \<Rightarrow> (Inr (concat (map le_bytes32 array)), dec', w')))"

text \<open>The chunk a callback pushes to the readable side: the second argument of
  \<^verbatim>\<open>callback\<close>, when it is given one.\<close>

fun pushed :: "outcome \<Rightarrow> byte list list" where
  "pushed (Callback (Inr b)) = [b]"
| "pushed (Callback (Inl e)) = []"
| "pushed (Uncaught e) = []"

section \<open>Auxiliary definitions for the statements\<close>

text \<open>The address \<^verbatim>\<open>_withState\<close> hands to \<open>func\<close>, and the world \<open>func\<close> starts in:
  what \<open>withState\<close> does before the call.\<close>

definition enter :: "engine \<Rightarrow> ('c, 'h) handle_scheme \<Rightarrow> world \<Rightarrow> addr \<times> world" where
  "enter E h w =
     (case state h of
        Pointer p \<Rightarrow> (p, w)
      | Snapshot s \<Rightarrow>
          (let (p, w1) = malloc E (length s) w
           in (p, w1\<lparr>heap := HEAPU8_set s p (heap w1)\<rparr>)))"

text \<open>What \<open>withState\<close> does after the call, in its \<^verbatim>\<open>finally\<close> block.\<close>

definition leave ::
  "('c, 'h) handle_scheme \<Rightarrow> addr \<Rightarrow> world \<Rightarrow> ('c, 'h) handle_scheme \<times> world" where
  "leave h p w =
     (case state h of
        Pointer q \<Rightarrow> (h, w)
      | Snapshot s \<Rightarrow>
          (h\<lparr>state := Snapshot (HEAPU8_subarray p (p + length s) (heap w))\<rparr>, free p w))"

text \<open>The calls \<open>withState\<close> makes by itself, around \<open>func\<close>.\<close>

definition scratch_calls :: "engine \<Rightarrow> ('c, 'h) handle_scheme \<Rightarrow> world \<Rightarrow> event list" where
  "scratch_calls E h w =
     (case state h of
        Pointer q \<Rightarrow> []
      | Snapshot s \<Rightarrow>
          [Call_malloc (length s) (place E (live w) (length s)),
           Call_free (place E (live w) (length s))])"

subsection \<open>A small engine to run the binding on\<close>

text \<open>
  An engine that keeps what Opus keeps of a frame's length: the encoder writes the
  number of samples per channel into a two byte packet, the decoder gives that number
  back (or conceals \<open>frame_size\<close> samples per channel when there is no packet), stores
  it in the first four bytes of its state, and reports it on control request 4039
  through the pointer found at the argument address. Blocks are placed after the last
  live block, on a multiple of 8.
\<close>

definition fc_place :: "(addr \<times> nat) list \<Rightarrow> nat \<Rightarrow> addr" where
  "fc_place blocks n = 8 * ((foldr (\<lambda>b m. max m (fst b + snd b)) blocks 8 + 7) div 8)"

definition fc_decode ::
  "addr \<Rightarrow> addr \<Rightarrow> int \<Rightarrow> addr \<Rightarrow> int \<Rightarrow> int \<Rightarrow> memory \<Rightarrow> int \<times> memory" where
  "fc_decode st data len pcm frame_size fec h =
     (if data = 0 \<or> len = 0 then
        (frame_size, HEAPU8_set (le_bytes32 (word_of_int frame_size)) st h)
      else
        (let n = uint (h data) + 256 * uint (h (data + 1))
         in if n > frame_size then (- 2, h)
            else (n, HEAPU8_set (le_bytes32 (word_of_int n)) st h)))"

definition fc_encode :: "addr \<Rightarrow> addr \<Rightarrow> int \<Rightarrow> addr \<Rightarrow> int \<Rightarrow> memory \<Rightarrow> int \<times> memory" where
  "fc_encode st pcm frame_size data max_bytes h =
     (if frame_size \<le> 0 then (- 1, h)
      else (2, HEAPU8_set (le_bytes16 (word_of_int frame_size)) data h))"

definition fc_ctl :: "addr \<Rightarrow> int \<Rightarrow> addr \<Rightarrow> memory \<Rightarrow> int \<times> memory" where
  "fc_ctl st request arg h =
     (if request = 4039 then
        (let q = unat (h arg) + 256 * unat (h (arg + 1)) + 65536 * unat (h (arg + 2))
                 + 16777216 * unat (h (arg + 3))
         in (0, HEAPU8_set (HEAPU8_slice st (st + 4) h) q h))
      else (- 5, h))"

definition frame_counter :: engine where
  "frame_counter =
     \<lparr>place = fc_place,
      opus_strerror = (\<lambda>code. ''engine error''),
      opus_decoder_get_size = (\<lambda>c. 8),
      opus_decoder_init = (\<lambda>st r c h. (0, HEAPU8_set (replicate 8 0) st h)),
      opus_decode = fc_decode,
      opus_decode_float = fc_decode,
      opus_decoder_ctl = fc_ctl,
      opus_encoder_get_size = (\<lambda>c. 8),
      opus_encoder_init = (\<lambda>st r c a h. (0, HEAPU8_set (replicate 8 0) st h)),
      opus_encode = fc_encode,
      opus_encode_float = fc_encode\<rparr>"

text \<open>The world before the module is loaded, and the world and scratch regions after.\<close>

definition world0 :: world where
  "world0 = \<lparr>heap = (\<lambda>a. 0), live = [], trace = []\<rparr>"

definition utils0 :: utils where
  "utils0 = \<lparr>p_pcm = 8, p_data = 46088\<rparr>"

definition world1 :: world where
  "world1 = \<lparr>heap = (\<lambda>a. 0), live = [(8, 46080), (46088, 61440)], trace = []\<rparr>"

text \<open>A world with an unsafe decoder's state block at 107528, whose last frame had 960
  samples per channel.\<close>

definition world2 :: world where
  "world2 = \<lparr>heap = HEAPU8_set [192, 3, 0, 0, 0, 0, 0, 0] 107528 (\<lambda>a. 0),
             live = [(8, 46080), (46088, 61440), (107528, 8)], trace = []\<rparr>"

text \<open>A world with the state block of an unsafe decoder that has decoded nothing yet:
  the heap is as the initialisation leaves it.\<close>

definition world3 :: world where
  "world3 = \<lparr>heap = (\<lambda>a. 0), live = [(8, 46080), (46088, 61440), (107528, 8)], trace = []\<rparr>"

definition no_options :: options where
  "no_options = \<lparr>opt_rate = None, opt_channels = None, opt_application = None, opt_unsafe = None\<rparr>"

section \<open>Facts about the heap views\<close>

lemma HEAPU8_slice_set [simp]: "HEAPU8_slice p (p + length bs) (HEAPU8_set bs p h) = bs"
  by (rule nth_equalityI) (simp_all add: HEAPU8_slice_def HEAPU8_set_def)

lemma HEAPU8_subarray_set [simp]: "HEAPU8_subarray p (p + length bs) (HEAPU8_set bs p h) = bs"
  by (rule nth_equalityI) (simp_all add: HEAPU8_subarray_def HEAPU8_set_def)

lemma length_HEAPU8_slice [simp]: "length (HEAPU8_slice a b h) = b - a"
  by (simp add: HEAPU8_slice_def)

lemma length_HEAPU8_subarray [simp]: "length (HEAPU8_subarray a b h) = b - a"
  by (simp add: HEAPU8_subarray_def)

lemma length_bytes_to16 [simp]: "length (bytes_to16 bs) = length bs div 2"
  by (induction bs rule: bytes_to16.induct) simp_all

lemma length_bytes_to32 [simp]: "length (bytes_to32 bs) = length bs div 4"
  by (induction bs rule: bytes_to32.induct) simp_all

lemma withState_enter_leave:
  "withState E h func w =
     (case enter E h w of (p, w1) \<Rightarrow>
        (case func p w1 of (r, w2) \<Rightarrow>
           (case leave h p w2 of (h', w3) \<Rightarrow> (r, h', w3))))"
  by (simp add: withState_def enter_def leave_def Let_def split: codec_state.splits prod.splits)

section \<open>Facts about the decoder's steps\<close>

lemma leave_trace:
  "leave h p w = (h', w') \<Longrightarrow>
     trace w' = trace w @ (case state h of Pointer q \<Rightarrow> [] | Snapshot s \<Rightarrow> [Call_free p])"
  by (auto simp: leave_def free_def split: codec_state.splits)

lemma leave_trace_snd:
  "trace (snd (leave h p w)) =
     trace w @ (case state h of Pointer q \<Rightarrow> [] | Snapshot s \<Rightarrow> [Call_free p])"
  by (simp add: leave_def free_def split: codec_state.splits)

lemma libopus_opus_decode_eta:
  "libopus_opus_decode E =
     (\<lambda>st d l pc fs fec. logged (Call_opus_decode st d l pc fs fec) (opus_decode E st d l pc fs fec))"
  by (intro ext) (simp add: libopus_opus_decode_def)

lemma libopus_opus_decode_float_eta:
  "libopus_opus_decode_float E =
     (\<lambda>st d l pc fs fec. logged (Call_opus_decode_float st d l pc fs fec)
        (opus_decode_float E st d l pc fs fec))"
  by (intro ext) (simp add: libopus_opus_decode_float_def)

lemma decode_func_Buffer:
  assumes "length bs \<le> p_data_len"
  shows "decode_func E U h (Buffer bs) bps
           (\<lambda>st d l pc fs fec. logged (ev st d l pc fs fec) (f st d l pc fs fec)) p w =
         (case f p (p_data U) (int (length bs)) (p_pcm U)
                  (int p_pcm_len div channels h div int bps) 0
                  (HEAPU8_set bs (p_data U) (heap w)) of
            (n, h_out) \<Rightarrow>
              (if n < 0 then
                 (Inl (Error (opus_strerror E n)),
                  w\<lparr>heap := h_out,
                     trace := trace w @ [ev p (p_data U) (int (length bs)) (p_pcm U)
                        (int p_pcm_len div channels h div int bps) 0, Call_opus_strerror n]\<rparr>)
               else
                 (Inr (HEAPU8_slice (p_pcm U) (p_pcm U + nat n * bps) h_out),
                  w\<lparr>heap := h_out,
                     trace := trace w @ [ev p (p_data U) (int (length bs)) (p_pcm U)
                        (int p_pcm_len div channels h div int bps) 0]\<rparr>)))"
  using assms
  by (simp add: decode_func_def decode_data_def logged_def stringifyError_def Let_def split: prod.splits)

lemmas decode_func_Buffer16 =
  decode_func_Buffer [where ev = Call_opus_decode and f = "opus_decode E" and bps = 2 and E = E,
    folded libopus_opus_decode_eta, simplified] for E

lemmas decode_func_Buffer32 =
  decode_func_Buffer [where ev = Call_opus_decode_float and f = "opus_decode_float E" and bps = 4
    and E = E, folded libopus_opus_decode_float_eta, simplified] for E

lemma decode_data_Number:
  "decode_data E U h (Number n) bps
     (\<lambda>st d l pc fs fec. logged (ev st d l pc fs fec) (f st d l pc fs fec)) p w =
   (if n * int bps > int p_data_len then (Inl (Error ''too much lost data''), w)
    else
      (case f p 0 0 (p_pcm U) n 0 (heap w) of
         (ret, h_out) \<Rightarrow>
           (if ret < 0 then
              (Inl (Error (opus_strerror E ret)),
               w\<lparr>heap := h_out,
                  trace := trace w @ [ev p 0 0 (p_pcm U) n 0, Call_opus_strerror ret]\<rparr>)
            else
              (Inr (HEAPU8_slice (p_pcm U) (p_pcm U + nat ret * bps) h_out),
               w\<lparr>heap := h_out, trace := trace w @ [ev p 0 0 (p_pcm U) n 0]\<rparr>))))"
  by (simp add: decode_data_def logged_def stringifyError_def Let_def split: prod.splits)

lemmas decode_data_Number16 =
  decode_data_Number [where ev = Call_opus_decode and f = "opus_decode E" and bps = 2 and E = E,
    folded libopus_opus_decode_eta, simplified] for E

lemmas decode_data_Number32 =
  decode_data_Number [where ev = Call_opus_decode_float and f = "opus_decode_float E" and bps = 4
    and E = E, folded libopus_opus_decode_float_eta, simplified] for E

lemma decode_func_falsy:
  "falsy data \<Longrightarrow>
     decode_func E U h data bps dd p w =
       (case priv_getLastPacketDuration E p w of
          (Inl e, w1) \<Rightarrow> (Inl e, w1)
        | (Inr n, w1) \<Rightarrow> decode_data E U h (Number n) bps dd p w1)"
  by (simp add: decode_func_def)

lemma query_trace:
  assumes "priv_getLastPacketDuration E p w = (Inr n, w')"
  shows "trace w' = trace w @
           [Call_malloc 4 (place E (live w) 4),
            Call_malloc 4 (place E (live w @ [(place E (live w) 4, 4)]) 4),
            Call_opus_decoder_ctl p 4039 (place E (live w @ [(place E (live w) 4, 4)]) 4),
            Call_free (place E (live w @ [(place E (live w) 4, 4)]) 4),
            Call_free (place E (live w) 4)]"
  using assms
  by (auto simp: priv_getLastPacketDuration_def malloc_def free_def logged_def Let_def
        stringifyError_def split: prod.splits if_splits)

lemma withState_throws_at_once:
  assumes "\<And>p w. func p w = (Inl e, w)"
  shows "case withState E h func w of
           (r, h', w') \<Rightarrow>
             r = Inl e \<and> h' = h \<and> trace w' = trace w @ scratch_calls E h w
             \<and> (unsafe (state h) \<longrightarrow> w' = w)"
proof (cases "state h")
  case (Pointer q)
  then show ?thesis
    by (simp add: withState_def assms scratch_calls_def)
next
  case (Snapshot s)
  have "h\<lparr>state := Snapshot s\<rparr> = h"
    using Snapshot by (metis handle.surjective handle.update_convs(3))
  with Snapshot show ?thesis
    by (simp add: withState_def assms scratch_calls_def malloc_def free_def Let_def
          split: prod.splits)
qed

lemma decodeInt16_falsy_trace:
  assumes "falsy data" and "enter E h w = (p_dec, w_in)"
    and "priv_getLastPacketDuration E p_dec w_in = (Inr n, w_q)"
    and "n * 2 \<le> int p_data_len"
  shows "case opus_decode E p_dec 0 0 (p_pcm U) n 0 (heap w_q) of
           (ret, h_out) \<Rightarrow>
             trace (snd (snd (decodeInt16 E U h data w))) =
               trace w_q @ [Call_opus_decode p_dec 0 0 (p_pcm U) n 0]
               @ (if ret < 0 then [Call_opus_strerror ret] else [])
               @ (case state h of Pointer q \<Rightarrow> [] | Snapshot s \<Rightarrow> [Call_free p_dec])"
  using assms
  by (auto simp: decodeInt16_def priv_decode_def withState_enter_leave decode_func_falsy
        decode_data_Number16 leave_trace_snd split: prod.splits)

lemma decodeFloat32_falsy_trace:
  assumes "falsy data" and "enter E h w = (p_dec, w_in)"
    and "priv_getLastPacketDuration E p_dec w_in = (Inr n, w_q)"
    and "n * 4 \<le> int p_data_len"
  shows "case opus_decode_float E p_dec 0 0 (p_pcm U) n 0 (heap w_q) of
           (ret, h_out) \<Rightarrow>
             trace (snd (snd (decodeFloat32 E U h data w))) =
               trace w_q @ [Call_opus_decode_float p_dec 0 0 (p_pcm U) n 0]
               @ (if ret < 0 then [Call_opus_strerror ret] else [])
               @ (case state h of Pointer q \<Rightarrow> [] | Snapshot s \<Rightarrow> [Call_free p_dec])"
  using assms
  by (auto simp: decodeFloat32_def priv_decode_def withState_enter_leave decode_func_falsy
        decode_data_Number32 leave_trace_snd split: prod.splits)

text \<open>The small engine at work: loading the module in \<open>world0\<close> gives \<open>utils0\<close> and
  the heap and blocks of \<open>world1\<close>; an unsafe decoder made there has its state at
  107528 and leaves the heap and blocks of \<open>world3\<close>; the control query in \<open>world2\<close> and
  in \<open>world3\<close>; concealment.\<close>

lemma ToInt32_small:
  "0 \<le> q \<Longrightarrow> q < 2147483648 \<Longrightarrow> ToInt32 (Finite q) = \<lfloor>q\<rfloor>"
proof -
  assume a: "0 \<le> q" "q < 2147483648"
  then have "0 \<le> \<lfloor>q\<rfloor>" "\<lfloor>q\<rfloor> < 2147483648"
    by (simp_all add: floor_less_iff)
  with a show ?thesis by (simp add: Let_def)
qed

lemma floor_three_halves: "\<lfloor>3 / 2 :: rat\<rfloor> = 1"
  by (simp add: floor_eq_iff)

lemma ToInt32_three_halves: "ToInt32 (Finite (3 / 2)) = 1"
  by (simp add: ToInt32_small floor_eq_iff)

lemma ToInt32_count: "ToInt32 (Finite 1) = 1" "ToInt32 (Finite 2) = 2"
  by (simp_all add: ToInt32_small)

lemma count_of_count: "count_of (Finite 1) = Some 1" "count_of (Finite 2) = Some 2"
  "count_of (Finite (3 / 2)) = None"
  by (simp_all add: count_of_def floor_three_halves)

lemma HEAPU8_set_zero: "HEAPU8_set (replicate n 0) p (\<lambda>a. 0) = (\<lambda>a. 0)"
  by (rule ext) (auto simp: HEAPU8_set_def)

lemma frame_counter_place: "place frame_counter = fc_place"
  by (simp add: frame_counter_def)

lemma frame_counter_loaded:
  "fst (utils_load frame_counter world0) = utils0
   \<and> live (snd (utils_load frame_counter world0)) = live world1
   \<and> heap (snd (utils_load frame_counter world0)) = heap world1"
  by (simp add: utils_load_def malloc_def frame_counter_def fc_place_def world0_def world1_def
        utils0_def pcm_len_def data_len_def)

lemma frame_counter_unsafe_decoder:
  "map_sum id counted
       (fst (Decoder frame_counter (no_options\<lparr>opt_unsafe := Some True\<rparr>) world1))
     = Inr (Some \<lparr>rate = 48000, channels = 1, state = Pointer 107528\<rparr>)
   \<and> live (snd (Decoder frame_counter (no_options\<lparr>opt_unsafe := Some True\<rparr>) world1))
     = live world3
   \<and> heap (snd (Decoder frame_counter (no_options\<lparr>opt_unsafe := Some True\<rparr>) world1))
     = heap world3"
  by (simp del: ToInt32.simps
        add: ToInt32_count count_of_count counted_def Decoder_def default_def no_options_def
          malloc_def logged_def frame_counter_def fc_place_def world1_def world3_def
          HEAPU8_set_zero)

lemma query_world2:
  "fst (priv_getLastPacketDuration frame_counter 107528 world2) = Inr 960
   \<and> trace (snd (priv_getLastPacketDuration frame_counter 107528 world2)) =
       [Call_malloc 4 107536, Call_malloc 4 107544,
        Call_opus_decoder_ctl 107528 4039 107544, Call_free 107544, Call_free 107536]"
  by (simp add: priv_getLastPacketDuration_def malloc_def free_def logged_def Let_def
        frame_counter_def fc_place_def fc_ctl_def world2_def HEAPU32_put_def HEAP32_get_def
        le_bytes32_def HEAPU8_slice_def HEAPU8_set_def stringifyError_def)

lemma query_world2_pair:
  "priv_getLastPacketDuration frame_counter 107528 world2 =
     (Inr 960, snd (priv_getLastPacketDuration frame_counter 107528 world2))"
  using query_world2 by (metis prod.collapse)

lemma query_world3:
  "fst (priv_getLastPacketDuration frame_counter 107528 world3) = Inr 0
   \<and> trace (snd (priv_getLastPacketDuration frame_counter 107528 world3)) =
       [Call_malloc 4 107536, Call_malloc 4 107544,
        Call_opus_decoder_ctl 107528 4039 107544, Call_free 107544, Call_free 107536]"
  by (simp add: priv_getLastPacketDuration_def malloc_def free_def logged_def Let_def
        frame_counter_def fc_place_def fc_ctl_def world3_def HEAPU32_put_def HEAP32_get_def
        le_bytes32_def HEAPU8_slice_def HEAPU8_set_def stringifyError_def)

lemma query_world3_pair:
  "priv_getLastPacketDuration frame_counter 107528 world3 =
     (Inr 0, snd (priv_getLastPacketDuration frame_counter 107528 world3))"
  using query_world3 by (metis prod.collapse)

lemma fc_conceal:
  "opus_decode frame_counter st 0 0 pcm n 0 hh
     = (n, HEAPU8_set (le_bytes32 (word_of_int n)) st hh)"
  by (simp add: frame_counter_def fc_decode_def)

lemma HEAPU8_set_Nil [simp]: "HEAPU8_set [] p h = h"
  by (rule ext) (auto simp: HEAPU8_set_def)

lemma fc_conceal_packet:
  "opus_decode frame_counter st d 0 pcm n 0 hh
     = (n, HEAPU8_set (le_bytes32 (word_of_int n)) st hh)"
  by (simp add: frame_counter_def fc_decode_def)

lemma encode_func_Int16:
  assumes "length xs * 2 \<le> p_pcm_len"
  shows "encode_func E U enc (Int16Array xs) p w =
         (case opus_encode E p (p_pcm U) (int (length xs) div channels enc) (p_data U)
                  (int p_data_len) (HEAP16_set xs (p_pcm U div 2) (heap w)) of
            (len, h_out) \<Rightarrow>
              (if len < 0 then
                 (Inl (Error (opus_strerror E len)),
                  w\<lparr>heap := h_out,
                     trace := trace w @ [Call_opus_encode p (p_pcm U)
                        (int (length xs) div channels enc) (p_data U) (int p_data_len),
                        Call_opus_strerror len]\<rparr>)
               else
                 (Inr (HEAPU8_subarray (p_data U) (p_data U + nat len) h_out),
                  w\<lparr>heap := h_out,
                     trace := trace w @ [Call_opus_encode p (p_pcm U)
                        (int (length xs) div channels enc) (p_data U) (int p_data_len)]\<rparr>)))"
  using assms
  by (simp add: encode_func_def libopus_opus_encode_def logged_def stringifyError_def Let_def
        split: prod.splits)

lemma encode_Int16_calls_engine:
  assumes "length xs * 2 \<le> p_pcm_len" and "enter E enc w = (p_enc, w_e)"
  shows "Call_opus_encode p_enc (p_pcm U) (int (length xs) div channels enc) (p_data U)
           (int p_data_len) \<in> set (trace (snd (snd (encode E U enc (Int16Array xs) w))))"
  using assms(2)
  by (auto simp: encode_def withState_enter_leave encode_func_Int16 [OF assms(1)] leave_trace_snd
        split: prod.splits)

lemma decodeInt16_Buffer_length:
  assumes "length bs \<le> p_data_len" and "enter E dec w = (p_dec, w_d)"
    and "fst (opus_decode E p_dec (p_data U) (int (length bs)) (p_pcm U)
                (int p_pcm_len div channels dec div 2) 0
                (HEAPU8_set bs (p_data U) (heap w_d))) = n"
    and "0 \<le> n"
  shows "\<exists>ys. fst (decodeInt16 E U dec (Buffer bs) w) = Inr ys \<and> int (length ys) = n"
  using assms(2-)
  by (auto simp: decodeInt16_def priv_decode_def withState_enter_leave
        decode_func_Buffer16 [OF assms(1)] split: prod.splits)

lemma fc_decode_packet:
  "fst (opus_decode frame_counter st 46088 2 pcm 11520 0 (HEAPU8_set [120, 0] 46088 hh)) = 120"
  by (simp add: frame_counter_def fc_decode_def HEAPU8_set_def)

lemma fc_encode_packet:
  "fst (encode frame_counter utils0
          \<lparr>rate = 48000, channels = 2, state = Snapshot [0, 0, 0, 0, 0, 0, 0, 0], application = 2049\<rparr>
          (Int16Array (replicate 240 0)) world1) = Inr [120, 0]"
proof -
  have le: "length (replicate 240 (0 :: 16 word)) * 2 \<le> p_pcm_len"
    by (simp add: p_pcm_len_def pcm_len_def)
  have sub: "HEAPU8_subarray 46088 46090 (HEAPU8_set [120, 0] 46088 hh) = [120, 0]" for hh
    using HEAPU8_subarray_set [of 46088 "[120, 0]" hh] by simp
  show ?thesis
    by (simp add: encode_def withState_enter_leave encode_func_Int16 [OF le] enter_def malloc_def
          frame_counter_def fc_encode_def utils0_def le_bytes16_def sub split: prod.splits)
qed

lemma conceal_in_the_gap:
  assumes big: "int p_pcm_len < n * int bps" and small: "n * int bps \<le> int p_data_len"
    and e: "enter E h w = (p_dec, w_in)"
    and d: "f p_dec 0 0 (p_pcm U) n 0 (heap w_in) = (ret, h_out)"
  shows "case withState E h (decode_func E U h (Number n) bps
                 (\<lambda>st d l pc fs fec. logged (ev st d l pc fs fec) (f st d l pc fs fec))) w of
           (r, h', w') \<Rightarrow>
             trace w' = trace w_in @ [ev p_dec 0 0 (p_pcm U) n 0]
                 @ (if ret < 0 then [Call_opus_strerror ret] else [])
                 @ (case state h of Pointer q \<Rightarrow> [] | Snapshot s \<Rightarrow> [Call_free p_dec])
             \<and> (0 \<le> ret \<longrightarrow> r = Inr (HEAPU8_slice (p_pcm U) (p_pcm U + nat ret * bps) h_out))
             \<and> (case state h of
                  Pointer q \<Rightarrow> heap w' = h_out
                | Snapshot s \<Rightarrow>
                    state h' = Snapshot (HEAPU8_subarray p_dec (p_dec + length s) h_out))"
proof -
  from big have nz: "n \<noteq> 0" by auto
  from small have ok: "\<not> n * int bps > int p_data_len" by simp
  show ?thesis
    using nz ok e d
    by (auto simp: withState_enter_leave decode_func_def decode_data_Number leave_def free_def
          split: prod.splits codec_state.splits)
qed

lemma fc_encode_two:
  "fst (encode frame_counter utils0
          \<lparr>rate = 48000, channels = 1 :: int, state = Pointer 107528, application = 2049\<rparr>
          (Int16Array [513, 1027]) world2) = Inr [2, 0]"
proof -
  have le: "length [513, 1027 :: 16 word] * 2 \<le> p_pcm_len"
    by (simp add: p_pcm_len_def pcm_len_def)
  have sub: "HEAPU8_subarray 46088 46090 (HEAPU8_set [2, 0] 46088 hh) = [2, 0]" for hh
    using HEAPU8_subarray_set [of 46088 "[2, 0]" hh] by simp
  show ?thesis
    by (simp add: encode_def withState_enter_leave encode_func_Int16 [OF le] enter_def
          frame_counter_def fc_encode_def utils0_def le_bytes16_def sub split: prod.splits)
qed

lemma bytes_to16_example: "bytes_to16 [1, 2, 3, 4] = [513, 1027]"
  by simp

section \<open>Facts about the stream adapters\<close>

lemma stream_mode_other:
  "m \<noteq> ''Int16'' \<Longrightarrow> m \<noteq> ''Float32'' \<Longrightarrow> stream_mode (Text m) = Inl (ModeTypeError (Text m))"
  by (simp add: stream_mode_def)

section \<open>Scoped state in safe mode\<close>

text \<open>
  Claim C1. On a safe handle (its state a private snapshot \<open>s\<close>), \<open>withState\<close> obtains a
  block of exactly \<open>length s\<close> bytes from the allocator, the heap holds the snapshot at
  that address when \<open>func\<close> starts, \<open>func\<close> is run on that address and its outcome
  (a value or an error) is the outcome of \<open>withState\<close>, the new snapshot is what the
  block holds when \<open>func\<close> is done, and the last call is the release of the block, which
  is then not live: all of this whether \<open>func\<close> returns or throws.
\<close>

theorem withState_safe_scoped:
  assumes safe: "state h = Snapshot s"
  shows "case enter E h w of
           (p, w_in) \<Rightarrow>
             (case func p w_in of
                (r, w_out) \<Rightarrow>
                  (case withState E h func w of
                     (r', h', w') \<Rightarrow>
                       p = place E (live w) (length s)
                       \<and> trace w_in = trace w @ [Call_malloc (length s) p]
                       \<and> live w_in = live w @ [(p, length s)]
                       \<and> HEAPU8_slice p (p + length s) (heap w_in) = s
                       \<and> r' = r
                       \<and> state h' = Snapshot (HEAPU8_slice p (p + length s) (heap w_out))
                       \<and> trace w' = trace w_out @ [Call_free p]
                       \<and> p \<notin> fst ` set (live w')
                       \<and> live w' = filter (\<lambda>b. fst b \<noteq> p) (live w_out)
                       \<and> heap w' = heap w_out))"
  using safe
  by (auto simp: withState_def enter_def malloc_def free_def Let_def HEAPU8_slice_def
        HEAPU8_subarray_def HEAPU8_set_def split: prod.splits intro: nth_equalityI)

theorem withState_safe_scoped_witness:
  "state \<lparr>rate = 48000, channels = 1 :: int, state = Snapshot [1, 2, 3]\<rparr> = Snapshot [1, 2, 3]
   \<and> (case withState frame_counter \<lparr>rate = 48000, channels = 1 :: int, state = Snapshot [1, 2, 3]\<rparr>
             (\<lambda>p w. (Inl (Error ''failed'') :: error + unit,
                      w\<lparr>heap := HEAPU8_set [9] p (heap w)\<rparr>)) world1 of
         (r', h', w') \<Rightarrow>
           r' = Inl (Error ''failed'')
           \<and> state h' = Snapshot [9, 2, 3]
           \<and> trace w' = [Call_malloc 3 107528, Call_free 107528]
           \<and> live w' = live world1)"
  using withState_safe_scoped [where h = "\<lparr>rate = 48000, channels = 1 :: int, state = Snapshot [1, 2, 3]\<rparr>"
      and s = "[1, 2, 3]" and E = frame_counter and w = world1
      and func = "\<lambda>p w. (Inl (Error ''failed'') :: error + unit, w\<lparr>heap := HEAPU8_set [9] p (heap w)\<rparr>)"]
  by (simp add: enter_def malloc_def frame_counter_def fc_place_def world1_def HEAPU8_slice_def HEAPU8_set_def
        split: prod.splits)

section \<open>Construction\<close>

text \<open>
  Claim C7. What the constructors do with the \<^verbatim>\<open>channels\<close> option \<open>c\<close>: the test is
  \<open>c < 1\<close> or \<open>c > 2\<close>, on the number. Where it holds, both constructors fail with the
  error "channels must be either 1 or 2" and the world is as it was: no call through the
  function table has been made. Where it does not hold, which is so for 1 and 2, but
  also for every number between them, such as 1.5, and for \<^verbatim>\<open>NaN\<close>, the constructors
  go on (given a rate of the list and, for the encoder, an application of the
  enumeration): their first three calls are the engine's size query, the allocation and
  the initialisation, made with the integer of \<open>c\<close>, and when the initialisation
  reports success they return a handle whose \<open>channels\<close> is \<open>c\<close>.
\<close>

theorem constructor_channels:
  "(js_less c 1 \<or> js_greater c 2 \<longrightarrow>
      Decoder E (opts\<lparr>opt_channels := Some c\<rparr>) w
        = (Inl (Error ''channels must be either 1 or 2''), w)
      \<and> Encoder E (opts\<lparr>opt_channels := Some c\<rparr>) w
        = (Inl (Thrown ''channels must be either 1 or 2''), w))
   \<and> (\<not> (js_less c 1 \<or> js_greater c 2)
        \<and> default 48000 (opt_rate opts) \<in> {8000, 12000, 16000, 24000, 48000}
        \<and> (\<forall>st r h. fst (opus_decoder_init E st r (ToInt32 c) h) = 0) \<longrightarrow>
        (\<exists>d. fst (Decoder E (opts\<lparr>opt_channels := Some c\<rparr>) w) = Inr d \<and> channels d = c)
        \<and> take 3 (drop (length (trace w))
              (trace (snd (Decoder E (opts\<lparr>opt_channels := Some c\<rparr>) w))))
            = [Call_opus_decoder_get_size (ToInt32 c),
               Call_malloc (opus_decoder_get_size E (ToInt32 c))
                 (place E (live w) (opus_decoder_get_size E (ToInt32 c))),
               Call_opus_decoder_init (place E (live w) (opus_decoder_get_size E (ToInt32 c)))
                 (default 48000 (opt_rate opts)) (ToInt32 c)])
   \<and> (\<not> (js_less c 1 \<or> js_greater c 2)
        \<and> default 48000 (opt_rate opts) \<in> {8000, 12000, 16000, 24000, 48000}
        \<and> default AUDIO (opt_application opts) \<in> {VOIP, AUDIO, RESTRICTED_LOWDELAY}
        \<and> (\<forall>st r a h. fst (opus_encoder_init E st r (ToInt32 c) a h) = 0) \<longrightarrow>
        (\<exists>e. fst (Encoder E (opts\<lparr>opt_channels := Some c\<rparr>) w) = Inr e \<and> channels e = c)
        \<and> take 3 (drop (length (trace w))
              (trace (snd (Encoder E (opts\<lparr>opt_channels := Some c\<rparr>) w))))
            = [Call_opus_encoder_get_size (ToInt32 c),
               Call_malloc (opus_encoder_get_size E (ToInt32 c))
                 (place E (live w) (opus_encoder_get_size E (ToInt32 c))),
               Call_opus_encoder_init (place E (live w) (opus_encoder_get_size E (ToInt32 c)))
                 (default 48000 (opt_rate opts)) (ToInt32 c)
                 (default AUDIO (opt_application opts))])"
proof (intro conjI impI)
  assume "js_less c 1 \<or> js_greater c 2"
  then show "Decoder E (opts\<lparr>opt_channels := Some c\<rparr>) w
        = (Inl (Error ''channels must be either 1 or 2''), w)"
    and "Encoder E (opts\<lparr>opt_channels := Some c\<rparr>) w
        = (Inl (Thrown ''channels must be either 1 or 2''), w)"
    by (simp_all add: Decoder_def Encoder_def default_def)
next
  assume a: "\<not> (js_less c 1 \<or> js_greater c 2)
        \<and> default 48000 (opt_rate opts) \<in> {8000, 12000, 16000, 24000, 48000}
        \<and> (\<forall>st r h. fst (opus_decoder_init E st r (ToInt32 c) h) = 0)"
  then have c: "\<not> (js_less c 1 \<or> js_greater c 2)" by blast
  from a have init: "\<And>st r h. fst (opus_decoder_init E st r (ToInt32 c) h) = 0" by blast
  from a have r: "default 48000 (opt_rate opts) \<in> set [8000, 12000, 16000, 24000, 48000]" by simp
  show "\<exists>d. fst (Decoder E (opts\<lparr>opt_channels := Some c\<rparr>) w) = Inr d \<and> channels d = c"
    using c r init [of "place E (live w) (opus_decoder_get_size E (ToInt32 c))"
        "default 48000 (opt_rate opts)" "heap w"]
    by (cases "default False (opt_unsafe opts)")
       (auto simp: Decoder_def Let_def logged_def malloc_def default_def [of _ "Some c"]
          split: prod.splits)
  show "take 3 (drop (length (trace w))
              (trace (snd (Decoder E (opts\<lparr>opt_channels := Some c\<rparr>) w))))
            = [Call_opus_decoder_get_size (ToInt32 c),
               Call_malloc (opus_decoder_get_size E (ToInt32 c))
                 (place E (live w) (opus_decoder_get_size E (ToInt32 c))),
               Call_opus_decoder_init (place E (live w) (opus_decoder_get_size E (ToInt32 c)))
                 (default 48000 (opt_rate opts)) (ToInt32 c)]"
    using c r init [of "place E (live w) (opus_decoder_get_size E (ToInt32 c))"
        "default 48000 (opt_rate opts)" "heap w"]
    by (cases "default False (opt_unsafe opts)")
       (auto simp: Decoder_def Let_def logged_def malloc_def free_def default_def [of _ "Some c"]
          split: prod.splits)
next
  assume a: "\<not> (js_less c 1 \<or> js_greater c 2)
        \<and> default 48000 (opt_rate opts) \<in> {8000, 12000, 16000, 24000, 48000}
        \<and> default AUDIO (opt_application opts) \<in> {VOIP, AUDIO, RESTRICTED_LOWDELAY}
        \<and> (\<forall>st r a h. fst (opus_encoder_init E st r (ToInt32 c) a h) = 0)"
  then have c: "\<not> (js_less c 1 \<or> js_greater c 2)" by blast
  from a have init: "\<And>st r a h. fst (opus_encoder_init E st r (ToInt32 c) a h) = 0" by blast
  from a have r: "default 48000 (opt_rate opts) \<in> set [8000, 12000, 16000, 24000, 48000]" by simp
  from a have ap: "\<not> (default AUDIO (opt_application opts) \<noteq> VOIP
      \<and> default AUDIO (opt_application opts) \<noteq> AUDIO
      \<and> default AUDIO (opt_application opts) \<noteq> RESTRICTED_LOWDELAY)" by auto
  show "\<exists>e. fst (Encoder E (opts\<lparr>opt_channels := Some c\<rparr>) w) = Inr e \<and> channels e = c"
    using c r ap init [of "place E (live w) (opus_encoder_get_size E (ToInt32 c))"
         "default 48000 (opt_rate opts)" "default AUDIO (opt_application opts)" "heap w"]
    by (cases "default False (opt_unsafe opts)")
       (auto simp: Encoder_def Let_def logged_def malloc_def default_def [of _ "Some c"]
          split: prod.splits)
  show "take 3 (drop (length (trace w))
              (trace (snd (Encoder E (opts\<lparr>opt_channels := Some c\<rparr>) w))))
            = [Call_opus_encoder_get_size (ToInt32 c),
               Call_malloc (opus_encoder_get_size E (ToInt32 c))
                 (place E (live w) (opus_encoder_get_size E (ToInt32 c))),
               Call_opus_encoder_init (place E (live w) (opus_encoder_get_size E (ToInt32 c)))
                 (default 48000 (opt_rate opts)) (ToInt32 c)
                 (default AUDIO (opt_application opts))]"
    using c r ap init [of "place E (live w) (opus_encoder_get_size E (ToInt32 c))"
         "default 48000 (opt_rate opts)" "default AUDIO (opt_application opts)" "heap w"]
    by (cases "default False (opt_unsafe opts)")
       (auto simp: Encoder_def Let_def logged_def malloc_def free_def default_def [of _ "Some c"]
          split: prod.splits)
qed

theorem constructor_channels_witness:
  "Decoder frame_counter (no_options\<lparr>opt_channels := Some (Finite 3)\<rparr>) world1
     = (Inl (Error ''channels must be either 1 or 2''), world1)
   \<and> Encoder frame_counter (no_options\<lparr>opt_channels := Some (Finite 0)\<rparr>) world1
     = (Inl (Thrown ''channels must be either 1 or 2''), world1)
   \<and> (\<exists>d. fst (Decoder frame_counter (no_options\<lparr>opt_channels := Some (Finite 2)\<rparr>) world1) = Inr d
          \<and> channels d = Finite 2)
   \<and> (\<exists>d. fst (Decoder frame_counter (no_options\<lparr>opt_channels := Some (Finite (3 / 2))\<rparr>) world1)
            = Inr d
          \<and> channels d = Finite (3 / 2))
   \<and> take 3 (trace (snd (Decoder frame_counter
                 (no_options\<lparr>opt_channels := Some (Finite (3 / 2))\<rparr>) world1)))
       = [Call_opus_decoder_get_size 1, Call_malloc 8 107528,
          Call_opus_decoder_init 107528 48000 1]
   \<and> (\<exists>e. fst (Encoder frame_counter (no_options\<lparr>opt_channels := Some (Finite (3 / 2))\<rparr>) world1)
            = Inr e
          \<and> channels e = Finite (3 / 2))"
  using constructor_channels [where c = "Finite 3" and E = frame_counter and opts = no_options
      and w = world1]
    constructor_channels [where c = "Finite 0" and E = frame_counter and opts = no_options
      and w = world1]
    constructor_channels [where c = "Finite 2" and E = frame_counter and opts = no_options
      and w = world1]
    constructor_channels [where c = "Finite (3 / 2)" and E = frame_counter and opts = no_options
      and w = world1]
  by (simp del: ToInt32.simps
        add: ToInt32_three_halves ToInt32_count frame_counter_def fc_place_def no_options_def
          default_def AUDIO_def VOIP_def RESTRICTED_LOWDELAY_def world1_def)

section \<open>Destruction\<close>

text \<open>
  Claim C8. On a safe handle \<open>destroy\<close>, called any number of times, changes neither
  the handle nor the world. On an unsafe handle one call of \<open>destroy\<close> makes exactly one
  call through the function table, the release of the retained block, which is then
  not live; the handle and the heap are as they were.
\<close>

theorem destroy_effect:
  "(state h = Snapshot s \<longrightarrow> ((\<lambda>(h, w). destroy h w) ^^ n) (h, w) = (h, w))
   \<and> (state h = Pointer p \<longrightarrow>
        (case destroy h w of
           (h', w') \<Rightarrow>
             h' = h \<and> heap w' = heap w \<and> trace w' = trace w @ [Call_free p]
             \<and> p \<notin> fst ` set (live w')
             \<and> live w' = filter (\<lambda>b. fst b \<noteq> p) (live w)))"
proof (intro conjI impI)
  assume safe: "state h = Snapshot s"
  show "((\<lambda>(h, w). destroy h w) ^^ n) (h, w) = (h, w)"
    by (induction n) (simp_all add: destroy_def safe)
next
  assume "state h = Pointer p"
  then show "case destroy h w of
           (h', w') \<Rightarrow>
             h' = h \<and> heap w' = heap w \<and> trace w' = trace w @ [Call_free p]
             \<and> p \<notin> fst ` set (live w')
             \<and> live w' = filter (\<lambda>b. fst b \<noteq> p) (live w)"
    by (auto simp: destroy_def free_def)
qed

theorem destroy_effect_witness:
  "((\<lambda>(h, w). destroy h w) ^^ 3) (\<lparr>rate = 48000, channels = 1 :: int, state = Snapshot [1, 2, 3]\<rparr>, world1)
     = (\<lparr>rate = 48000, channels = 1 :: int, state = Snapshot [1, 2, 3]\<rparr>, world1)
   \<and> (case destroy \<lparr>rate = 48000, channels = 1 :: int, state = Pointer 107528\<rparr>
              (world1\<lparr>live := live world1 @ [(107528, 8)]\<rparr>) of
         (h', w') \<Rightarrow>
           h' = \<lparr>rate = 48000, channels = 1 :: int, state = Pointer 107528\<rparr>
           \<and> trace w' = [Call_free 107528] \<and> live w' = live world1)"
  using destroy_effect [where h = "\<lparr>rate = 48000, channels = 1 :: int, state = Snapshot [1, 2, 3]\<rparr>"
      and s = "[1, 2, 3]" and n = 3 and w = world1]
    destroy_effect [where h = "\<lparr>rate = 48000, channels = 1 :: int, state = Pointer 107528\<rparr>"
      and p = 107528 and w = "world1\<lparr>live := live world1 @ [(107528, 8)]\<rparr>"]
  by (simp add: world1_def split: prod.splits)

section \<open>Decoding a packet\<close>

text \<open>
  Claim C6. For a \<^verbatim>\<open>Buffer\<close> no longer than the packet scratch region, the decoder
  writes the bytes to the packet scratch region (the engine starts on a heap that holds
  them there), calls the engine's decode once, on the state address, the packet scratch
  address, the packet's length, the PCM scratch address and the cap
  \<open>p_pcm_len div channels div width\<close>, and, when the engine returns \<open>n \<ge> 0\<close>, returns the
  first \<open>n * width\<close> bytes of the PCM scratch region read as samples; a negative \<open>n\<close> is
  thrown as the engine's error text. Width 2 with \<open>opus_decode\<close> for \<open>decodeInt16\<close>,
  width 4 with \<open>opus_decode_float\<close> for \<open>decodeFloat32\<close>.
\<close>

theorem decode_packet:
  assumes "length bs \<le> p_data_len"
  shows "case enter E h w of
           (p_dec, w_in) \<Rightarrow>
             HEAPU8_slice (p_data U) (p_data U + length bs)
                 (HEAPU8_set bs (p_data U) (heap w_in)) = bs
             \<and> (case opus_decode E p_dec (p_data U) (int (length bs)) (p_pcm U)
                       (int p_pcm_len div channels h div 2) 0
                       (HEAPU8_set bs (p_data U) (heap w_in)) of
                  (n, h_out) \<Rightarrow>
                    (case decodeInt16 E U h (Buffer bs) w of
                       (r, h', w') \<Rightarrow>
                         trace w' = trace w_in
                           @ [Call_opus_decode p_dec (p_data U) (int (length bs)) (p_pcm U)
                                (int p_pcm_len div channels h div 2) 0]
                           @ (if n < 0 then [Call_opus_strerror n] else [])
                           @ (case state h of Pointer q \<Rightarrow> [] | Snapshot s \<Rightarrow> [Call_free p_dec])
                         \<and> (0 \<le> n \<longrightarrow>
                              r = Inr (bytes_to16 (HEAPU8_slice (p_pcm U) (p_pcm U + nat n * 2) h_out)))
                         \<and> (n < 0 \<longrightarrow> r = Inl (Error (opus_strerror E n)))))
             \<and> (case opus_decode_float E p_dec (p_data U) (int (length bs)) (p_pcm U)
                       (int p_pcm_len div channels h div 4) 0
                       (HEAPU8_set bs (p_data U) (heap w_in)) of
                  (n, h_out) \<Rightarrow>
                    (case decodeFloat32 E U h (Buffer bs) w of
                       (r, h', w') \<Rightarrow>
                         trace w' = trace w_in
                           @ [Call_opus_decode_float p_dec (p_data U) (int (length bs)) (p_pcm U)
                                (int p_pcm_len div channels h div 4) 0]
                           @ (if n < 0 then [Call_opus_strerror n] else [])
                           @ (case state h of Pointer q \<Rightarrow> [] | Snapshot s \<Rightarrow> [Call_free p_dec])
                         \<and> (0 \<le> n \<longrightarrow>
                              r = Inr (bytes_to32 (HEAPU8_slice (p_pcm U) (p_pcm U + nat n * 4) h_out)))
                         \<and> (n < 0 \<longrightarrow> r = Inl (Error (opus_strerror E n)))))"
proof -
  obtain p_dec w_in where e: "enter E h w = (p_dec, w_in)" by (cases "enter E h w")
  have i16: "case opus_decode E p_dec (p_data U) (int (length bs)) (p_pcm U)
                       (int p_pcm_len div channels h div 2) 0
                       (HEAPU8_set bs (p_data U) (heap w_in)) of
                  (n, h_out) \<Rightarrow>
                    (case decodeInt16 E U h (Buffer bs) w of
                       (r, h', w') \<Rightarrow>
                         trace w' = trace w_in
                           @ [Call_opus_decode p_dec (p_data U) (int (length bs)) (p_pcm U)
                                (int p_pcm_len div channels h div 2) 0]
                           @ (if n < 0 then [Call_opus_strerror n] else [])
                           @ (case state h of Pointer q \<Rightarrow> [] | Snapshot s \<Rightarrow> [Call_free p_dec])
                         \<and> (0 \<le> n \<longrightarrow>
                              r = Inr (bytes_to16 (HEAPU8_slice (p_pcm U) (p_pcm U + nat n * 2) h_out)))
                         \<and> (n < 0 \<longrightarrow> r = Inl (Error (opus_strerror E n))))"
    using e
    by (auto simp: decodeInt16_def priv_decode_def withState_enter_leave
          decode_func_Buffer16 [OF assms] split: prod.splits dest: leave_trace)
  have f32: "case opus_decode_float E p_dec (p_data U) (int (length bs)) (p_pcm U)
                       (int p_pcm_len div channels h div 4) 0
                       (HEAPU8_set bs (p_data U) (heap w_in)) of
                  (n, h_out) \<Rightarrow>
                    (case decodeFloat32 E U h (Buffer bs) w of
                       (r, h', w') \<Rightarrow>
                         trace w' = trace w_in
                           @ [Call_opus_decode_float p_dec (p_data U) (int (length bs)) (p_pcm U)
                                (int p_pcm_len div channels h div 4) 0]
                           @ (if n < 0 then [Call_opus_strerror n] else [])
                           @ (case state h of Pointer q \<Rightarrow> [] | Snapshot s \<Rightarrow> [Call_free p_dec])
                         \<and> (0 \<le> n \<longrightarrow>
                              r = Inr (bytes_to32 (HEAPU8_slice (p_pcm U) (p_pcm U + nat n * 4) h_out)))
                         \<and> (n < 0 \<longrightarrow> r = Inl (Error (opus_strerror E n))))"
    using e
    by (auto simp: decodeFloat32_def priv_decode_def withState_enter_leave
          decode_func_Buffer32 [OF assms] split: prod.splits dest: leave_trace)
  show ?thesis
    using i16 f32 by (simp add: e)
qed

theorem decode_packet_witness:
  "length [2, 0 :: byte] \<le> p_data_len
   \<and> (case decodeInt16 frame_counter utils0
              \<lparr>rate = 48000, channels = 2, state = Snapshot [0, 0, 0, 0, 0, 0, 0, 0]\<rparr>
              (Buffer [2, 0]) world1 of
         (r, h', w') \<Rightarrow>
           trace w' = [Call_malloc 8 107528, Call_opus_decode 107528 46088 2 8 11520 0,
                       Call_free 107528]
           \<and> r = Inr [0, 0])
   \<and> (case decodeFloat32 frame_counter utils0
              \<lparr>rate = 48000, channels = 2, state = Pointer 107528\<rparr>
              (Buffer [2, 0]) world1 of
         (r, h', w') \<Rightarrow>
           trace w' = [Call_opus_decode_float 107528 46088 2 8 5760 0]
           \<and> r = Inr [0, 0])"
proof -
  have le: "length [2, 0 :: byte] \<le> p_data_len"
    by (simp add: p_data_len_def data_len_def)
  show ?thesis
    using le
      decode_packet [OF le, where E = frame_counter and U = utils0 and w = world1
        and h = "\<lparr>rate = 48000, channels = 2, state = Snapshot [0, 0, 0, 0, 0, 0, 0, 0]\<rparr>"]
      decode_packet [OF le, where E = frame_counter and U = utils0 and w = world1
        and h = "\<lparr>rate = 48000, channels = 2, state = Pointer 107528\<rparr>"]
    by (simp add: enter_def malloc_def frame_counter_def fc_place_def fc_decode_def world1_def
          utils0_def p_pcm_len_def pcm_len_def HEAPU8_set_def HEAPU8_slice_def le_bytes32_def
          split: prod.splits)
qed

section \<open>Oversized input\<close>

text \<open>
  Claim C5. Where the code departs from the claim: a count \<open>n\<close> of lost samples whose
  bytes, \<open>n * width\<close>, exceed the PCM scratch region but not the packet scratch region
  is not rejected. The engine's decode is called with \<open>n\<close> as the frame size, what it
  leaves in the PCM scratch region is returned, and the codec state is what the engine
  has made of it: on a safe handle the snapshot is replaced by the bytes the engine
  has left in the state block.
\<close>

theorem oversized_count_decoded:
  "(int p_pcm_len < n * 2 \<and> n * 2 \<le> int p_data_len \<longrightarrow>
      (case enter E h w of
         (p_dec, w_in) \<Rightarrow>
           (case opus_decode E p_dec 0 0 (p_pcm U) n 0 (heap w_in) of
              (ret, h_out) \<Rightarrow>
                (case decodeInt16 E U h (Number n) w of
                   (r, h', w') \<Rightarrow>
                     trace w' = trace w_in @ [Call_opus_decode p_dec 0 0 (p_pcm U) n 0]
                         @ (if ret < 0 then [Call_opus_strerror ret] else [])
                         @ (case state h of Pointer q \<Rightarrow> [] | Snapshot s \<Rightarrow> [Call_free p_dec])
                     \<and> (0 \<le> ret \<longrightarrow>
                          r = Inr (bytes_to16
                                (HEAPU8_slice (p_pcm U) (p_pcm U + nat ret * 2) h_out)))
                     \<and> (case state h of
                          Pointer q \<Rightarrow> heap w' = h_out
                        | Snapshot s \<Rightarrow>
                            state h'
                              = Snapshot (HEAPU8_subarray p_dec (p_dec + length s) h_out))))))
   \<and> (int p_pcm_len < n * 4 \<and> n * 4 \<le> int p_data_len \<longrightarrow>
      (case enter E h w of
         (p_dec, w_in) \<Rightarrow>
           (case opus_decode_float E p_dec 0 0 (p_pcm U) n 0 (heap w_in) of
              (ret, h_out) \<Rightarrow>
                (case decodeFloat32 E U h (Number n) w of
                   (r, h', w') \<Rightarrow>
                     trace w' = trace w_in @ [Call_opus_decode_float p_dec 0 0 (p_pcm U) n 0]
                         @ (if ret < 0 then [Call_opus_strerror ret] else [])
                         @ (case state h of Pointer q \<Rightarrow> [] | Snapshot s \<Rightarrow> [Call_free p_dec])
                     \<and> (0 \<le> ret \<longrightarrow>
                          r = Inr (bytes_to32
                                (HEAPU8_slice (p_pcm U) (p_pcm U + nat ret * 4) h_out)))
                     \<and> (case state h of
                          Pointer q \<Rightarrow> heap w' = h_out
                        | Snapshot s \<Rightarrow>
                            state h'
                              = Snapshot (HEAPU8_subarray p_dec (p_dec + length s) h_out))))))"
proof (intro conjI impI)
  assume a: "int p_pcm_len < n * 2 \<and> n * 2 \<le> int p_data_len"
  obtain p_dec w_in where e: "enter E h w = (p_dec, w_in)" by (cases "enter E h w")
  obtain ret h_out where d: "opus_decode E p_dec 0 0 (p_pcm U) n 0 (heap w_in) = (ret, h_out)"
    by (cases "opus_decode E p_dec 0 0 (p_pcm U) n 0 (heap w_in)")
  from a have big: "int p_pcm_len < n * int 2" and small: "n * int 2 \<le> int p_data_len"
    by simp_all
  from conceal_in_the_gap [where f = "opus_decode E" and ev = Call_opus_decode and U = U,
      OF big small e d]
  show "case enter E h w of
         (p_dec, w_in) \<Rightarrow>
           (case opus_decode E p_dec 0 0 (p_pcm U) n 0 (heap w_in) of
              (ret, h_out) \<Rightarrow>
                (case decodeInt16 E U h (Number n) w of
                   (r, h', w') \<Rightarrow>
                     trace w' = trace w_in @ [Call_opus_decode p_dec 0 0 (p_pcm U) n 0]
                         @ (if ret < 0 then [Call_opus_strerror ret] else [])
                         @ (case state h of Pointer q \<Rightarrow> [] | Snapshot s \<Rightarrow> [Call_free p_dec])
                     \<and> (0 \<le> ret \<longrightarrow>
                          r = Inr (bytes_to16
                                (HEAPU8_slice (p_pcm U) (p_pcm U + nat ret * 2) h_out)))
                     \<and> (case state h of
                          Pointer q \<Rightarrow> heap w' = h_out
                        | Snapshot s \<Rightarrow>
                            state h'
                              = Snapshot (HEAPU8_subarray p_dec (p_dec + length s) h_out))))"
    by (auto simp: e d decodeInt16_def priv_decode_def libopus_opus_decode_eta
          split: prod.splits sum.splits codec_state.splits)
next
  assume a: "int p_pcm_len < n * 4 \<and> n * 4 \<le> int p_data_len"
  obtain p_dec w_in where e: "enter E h w = (p_dec, w_in)" by (cases "enter E h w")
  obtain ret h_out where d: "opus_decode_float E p_dec 0 0 (p_pcm U) n 0 (heap w_in) = (ret, h_out)"
    by (cases "opus_decode_float E p_dec 0 0 (p_pcm U) n 0 (heap w_in)")
  from a have big: "int p_pcm_len < n * int 4" and small: "n * int 4 \<le> int p_data_len"
    by simp_all
  from conceal_in_the_gap [where f = "opus_decode_float E" and ev = Call_opus_decode_float
      and U = U, OF big small e d]
  show "case enter E h w of
         (p_dec, w_in) \<Rightarrow>
           (case opus_decode_float E p_dec 0 0 (p_pcm U) n 0 (heap w_in) of
              (ret, h_out) \<Rightarrow>
                (case decodeFloat32 E U h (Number n) w of
                   (r, h', w') \<Rightarrow>
                     trace w' = trace w_in @ [Call_opus_decode_float p_dec 0 0 (p_pcm U) n 0]
                         @ (if ret < 0 then [Call_opus_strerror ret] else [])
                         @ (case state h of Pointer q \<Rightarrow> [] | Snapshot s \<Rightarrow> [Call_free p_dec])
                     \<and> (0 \<le> ret \<longrightarrow>
                          r = Inr (bytes_to32
                                (HEAPU8_slice (p_pcm U) (p_pcm U + nat ret * 4) h_out)))
                     \<and> (case state h of
                          Pointer q \<Rightarrow> heap w' = h_out
                        | Snapshot s \<Rightarrow>
                            state h'
                              = Snapshot (HEAPU8_subarray p_dec (p_dec + length s) h_out))))"
    by (auto simp: e d decodeFloat32_def priv_decode_def libopus_opus_decode_float_eta
          split: prod.splits sum.splits codec_state.splits)
qed

theorem oversized_count_decoded_witness:
  "int p_pcm_len < 25000 * 2 \<and> (25000 :: int) * 2 \<le> int p_data_len
   \<and> (case decodeInt16 frame_counter utils0
              \<lparr>rate = 48000, channels = 1, state = Snapshot [0, 0, 0, 0, 0, 0, 0, 0]\<rparr>
              (Number 25000) world1 of
         (r, h', w') \<Rightarrow>
           trace w' = [Call_malloc 8 107528, Call_opus_decode 107528 0 0 8 25000 0,
                       Call_free 107528]
           \<and> map_sum id length r = Inr 25000
           \<and> state h' = Snapshot [168, 97, 0, 0, 0, 0, 0, 0])"
proof -
  have gap: "int p_pcm_len < 25000 * 2 \<and> (25000 :: int) * 2 \<le> int p_data_len"
    by (simp add: p_pcm_len_def pcm_len_def p_data_len_def data_len_def)
  show ?thesis
    using gap
      oversized_count_decoded [where n = 25000 and E = frame_counter
        and U = utils0 and w = world1
        and h = "\<lparr>rate = 48000, channels = 1, state = Snapshot [0, 0, 0, 0, 0, 0, 0, 0]\<rparr>",
        THEN conjunct1]
    by (simp add: enter_def malloc_def fc_conceal utils0_def world1_def fc_place_def
          frame_counter_place HEAPU8_subarray_def HEAPU8_set_def
          le_bytes32_def split: prod.splits)
qed

text \<open>
  The other oversized inputs are rejected. A typed array whose byte length exceeds the
  PCM scratch region makes \<open>encode\<close> fail with "pcm array too large", and a \<^verbatim>\<open>Buffer\<close>
  longer than the packet scratch region makes \<open>decodeInt16\<close> and \<open>decodeFloat32\<close> fail
  with "data array too large". In each case the handle is as it was (in safe mode the
  snapshot is the same), the only calls made are the ones \<open>withState\<close> makes for its
  scratch block (none on an unsafe handle), so the engine has neither encoded nor
  decoded, and on an unsafe handle the whole world, the live state block with it, is as
  it was.
\<close>

theorem oversized_input_rejected:
  "(length xs * 4 > p_pcm_len \<longrightarrow>
      (case encode E U enc (Float32Array xs) w of
         (r, enc', w') \<Rightarrow>
           r = Inl (Error ''pcm array too large'') \<and> enc' = enc
           \<and> trace w' = trace w @ scratch_calls E enc w
           \<and> (unsafe (state enc) \<longrightarrow> w' = w)))
   \<and> (length ys * 2 > p_pcm_len \<longrightarrow>
      (case encode E U enc (Int16Array ys) w of
         (r, enc', w') \<Rightarrow>
           r = Inl (Error ''pcm array too large'') \<and> enc' = enc
           \<and> trace w' = trace w @ scratch_calls E enc w
           \<and> (unsafe (state enc) \<longrightarrow> w' = w)))
   \<and> (length bs > p_data_len \<longrightarrow>
      (case decodeInt16 E U dec (Buffer bs) w of
         (r, dec', w') \<Rightarrow>
           r = Inl (Error ''data array too large'') \<and> dec' = dec
           \<and> trace w' = trace w @ scratch_calls E dec w
           \<and> (unsafe (state dec) \<longrightarrow> w' = w))
      \<and> (case decodeFloat32 E U dec (Buffer bs) w of
         (r, dec', w') \<Rightarrow>
           r = Inl (Error ''data array too large'') \<and> dec' = dec
           \<and> trace w' = trace w @ scratch_calls E dec w
           \<and> (unsafe (state dec) \<longrightarrow> w' = w)))"
proof (intro conjI impI)
  assume "length xs * 4 > p_pcm_len"
  then have "\<And>p w. encode_func E U enc (Float32Array xs) p w = (Inl (Error ''pcm array too large''), w)"
    by (simp add: encode_func_def)
  from withState_throws_at_once [where func = "encode_func E U enc (Float32Array xs)" and E = E and h = enc and w = w, OF this]
  show "case encode E U enc (Float32Array xs) w of
         (r, enc', w') \<Rightarrow>
           r = Inl (Error ''pcm array too large'') \<and> enc' = enc
           \<and> trace w' = trace w @ scratch_calls E enc w
           \<and> (unsafe (state enc) \<longrightarrow> w' = w)"
    by (simp add: encode_def)
next
  assume "length ys * 2 > p_pcm_len"
  then have "\<And>p w. encode_func E U enc (Int16Array ys) p w = (Inl (Error ''pcm array too large''), w)"
    by (simp add: encode_func_def)
  from withState_throws_at_once [where func = "encode_func E U enc (Int16Array ys)" and E = E and h = enc and w = w, OF this]
  show "case encode E U enc (Int16Array ys) w of
         (r, enc', w') \<Rightarrow>
           r = Inl (Error ''pcm array too large'') \<and> enc' = enc
           \<and> trace w' = trace w @ scratch_calls E enc w
           \<and> (unsafe (state enc) \<longrightarrow> w' = w)"
    by (simp add: encode_def)
next
  assume big: "length bs > p_data_len"
  then have "\<And>p w. decode_func E U dec (Buffer bs) 2 (libopus_opus_decode E) p w
      = (Inl (Error ''data array too large''), w)"
    by (simp add: decode_func_def decode_data_def)
  from withState_throws_at_once [where func = "decode_func E U dec (Buffer bs) 2 (libopus_opus_decode E)" and E = E and h = dec and w = w, OF this]
  show "case decodeInt16 E U dec (Buffer bs) w of
         (r, dec', w') \<Rightarrow>
           r = Inl (Error ''data array too large'') \<and> dec' = dec
           \<and> trace w' = trace w @ scratch_calls E dec w
           \<and> (unsafe (state dec) \<longrightarrow> w' = w)"
    by (auto simp: decodeInt16_def priv_decode_def split: prod.splits)
  from big have "\<And>p w. decode_func E U dec (Buffer bs) 4 (libopus_opus_decode_float E) p w
      = (Inl (Error ''data array too large''), w)"
    by (simp add: decode_func_def decode_data_def)
  from withState_throws_at_once [where func = "decode_func E U dec (Buffer bs) 4 (libopus_opus_decode_float E)" and E = E and h = dec and w = w, OF this]
  show "case decodeFloat32 E U dec (Buffer bs) w of
         (r, dec', w') \<Rightarrow>
           r = Inl (Error ''data array too large'') \<and> dec' = dec
           \<and> trace w' = trace w @ scratch_calls E dec w
           \<and> (unsafe (state dec) \<longrightarrow> w' = w)"
    by (auto simp: decodeFloat32_def priv_decode_def split: prod.splits)
qed

theorem oversized_input_rejected_witness:
  "length (replicate 11521 (0 :: 32 word)) * 4 > p_pcm_len
   \<and> (case encode frame_counter utils0
              \<lparr>rate = 48000, channels = 1, state = Snapshot [0, 0, 0, 0, 0, 0, 0, 0], application = 2049\<rparr>
              (Float32Array (replicate 11521 0)) world1 of
         (r, enc', w') \<Rightarrow>
           r = Inl (Error ''pcm array too large'')
           \<and> enc' = \<lparr>rate = 48000, channels = 1, state = Snapshot [0, 0, 0, 0, 0, 0, 0, 0],
                      application = 2049\<rparr>
           \<and> trace w' = [Call_malloc 8 107528, Call_free 107528])
   \<and> length (replicate 23041 (0 :: 16 word)) * 2 > p_pcm_len
   \<and> (case encode frame_counter utils0
              \<lparr>rate = 48000, channels = 1, state = Pointer 107528, application = 2049\<rparr>
              (Int16Array (replicate 23041 0)) world1 of
         (r, enc', w') \<Rightarrow> r = Inl (Error ''pcm array too large'') \<and> w' = world1)
   \<and> length (replicate 61441 (0 :: byte)) > p_data_len
   \<and> (case decodeInt16 frame_counter utils0
              \<lparr>rate = 48000, channels = 1, state = Snapshot [0, 0, 0, 0, 0, 0, 0, 0]\<rparr>
              (Buffer (replicate 61441 0)) world1 of
         (r, dec', w') \<Rightarrow>
           r = Inl (Error ''data array too large'')
           \<and> dec' = \<lparr>rate = 48000, channels = 1, state = Snapshot [0, 0, 0, 0, 0, 0, 0, 0]\<rparr>
           \<and> trace w' = [Call_malloc 8 107528, Call_free 107528])
   \<and> (case decodeFloat32 frame_counter utils0
              \<lparr>rate = 48000, channels = 1, state = Pointer 107528\<rparr>
              (Buffer (replicate 61441 0)) world1 of
         (r, dec', w') \<Rightarrow> r = Inl (Error ''data array too large'') \<and> w' = world1)"
  using oversized_input_rejected [where E = frame_counter and U = utils0 and w = world1
      and xs = "replicate 11521 0" and ys = "replicate 23041 0" and bs = "replicate 61441 0"
      and enc = "\<lparr>rate = 48000, channels = 1, state = Snapshot [0, 0, 0, 0, 0, 0, 0, 0], application = 2049\<rparr>"
      and dec = "\<lparr>rate = 48000, channels = 1, state = Snapshot [0, 0, 0, 0, 0, 0, 0, 0]\<rparr>"]
    oversized_input_rejected [where E = frame_counter and U = utils0 and w = world1
      and xs = "replicate 11521 0" and ys = "replicate 23041 0" and bs = "replicate 61441 0"
      and enc = "\<lparr>rate = 48000, channels = 1, state = Pointer 107528, application = 2049\<rparr>"
      and dec = "\<lparr>rate = 48000, channels = 1, state = Pointer 107528\<rparr>"]
  by (simp add: scratch_calls_def frame_counter_def fc_place_def world1_def p_pcm_len_def
        pcm_len_def p_data_len_def data_len_def split: prod.splits)

section \<open>A count of lost samples\<close>

text \<open>
  Claim C2, amended. For a count \<open>n\<close> other than 0 and the width 2 (\<open>decodeInt16\<close>) or
  4 (\<open>decodeFloat32\<close>): when \<open>n * width\<close> exceeds the capacity of the packet scratch
  region (61440, which is above the 46080 of the PCM scratch region) the call fails with
  "too much lost data", the handle is as it was and the engine has not decoded; when
  \<open>n * width\<close> does not exceed the capacity of the PCM scratch region the engine's decode
  is called once, on the state address, a zero packet pointer, a zero length, the PCM
  scratch address and \<open>n\<close> as the frame size.
\<close>

theorem lost_count_decode:
  assumes nz: "n \<noteq> 0"
  shows "(n * 2 > int p_data_len \<longrightarrow>
           (case decodeInt16 E U h (Number n) w of
              (r, h', w') \<Rightarrow>
                r = Inl (Error ''too much lost data'') \<and> h' = h
                \<and> trace w' = trace w @ scratch_calls E h w))
         \<and> (n * 4 > int p_data_len \<longrightarrow>
           (case decodeFloat32 E U h (Number n) w of
              (r, h', w') \<Rightarrow>
                r = Inl (Error ''too much lost data'') \<and> h' = h
                \<and> trace w' = trace w @ scratch_calls E h w))
         \<and> (n * 2 \<le> int p_pcm_len \<longrightarrow>
           (case enter E h w of
              (p_dec, w_in) \<Rightarrow>
                (case opus_decode E p_dec 0 0 (p_pcm U) n 0 (heap w_in) of
                   (ret, h_out) \<Rightarrow>
                     (case decodeInt16 E U h (Number n) w of
                        (r, h', w') \<Rightarrow>
                          trace w' = trace w_in @ [Call_opus_decode p_dec 0 0 (p_pcm U) n 0]
                            @ (if ret < 0 then [Call_opus_strerror ret] else [])
                            @ (case state h of Pointer q \<Rightarrow> [] | Snapshot s \<Rightarrow> [Call_free p_dec])))))
         \<and> (n * 4 \<le> int p_pcm_len \<longrightarrow>
           (case enter E h w of
              (p_dec, w_in) \<Rightarrow>
                (case opus_decode_float E p_dec 0 0 (p_pcm U) n 0 (heap w_in) of
                   (ret, h_out) \<Rightarrow>
                     (case decodeFloat32 E U h (Number n) w of
                        (r, h', w') \<Rightarrow>
                          trace w' = trace w_in @ [Call_opus_decode_float p_dec 0 0 (p_pcm U) n 0]
                            @ (if ret < 0 then [Call_opus_strerror ret] else [])
                            @ (case state h of Pointer q \<Rightarrow> [] | Snapshot s \<Rightarrow> [Call_free p_dec])))))"
proof (intro conjI impI)
  assume big: "n * 2 > int p_data_len"
  with nz have "\<And>p w. decode_func E U h (Number n) 2 (libopus_opus_decode E) p w
      = (Inl (Error ''too much lost data''), w)"
    by (simp add: decode_func_def decode_data_def)
  from withState_throws_at_once [where func = "decode_func E U h (Number n) 2 (libopus_opus_decode E)"
      and E = E and h = h and w = w, OF this]
  show "case decodeInt16 E U h (Number n) w of
              (r, h', w') \<Rightarrow>
                r = Inl (Error ''too much lost data'') \<and> h' = h
                \<and> trace w' = trace w @ scratch_calls E h w"
    by (auto simp: decodeInt16_def priv_decode_def split: prod.splits)
next
  assume big: "n * 4 > int p_data_len"
  with nz have "\<And>p w. decode_func E U h (Number n) 4 (libopus_opus_decode_float E) p w
      = (Inl (Error ''too much lost data''), w)"
    by (simp add: decode_func_def decode_data_def)
  from withState_throws_at_once [where func = "decode_func E U h (Number n) 4 (libopus_opus_decode_float E)"
      and E = E and h = h and w = w, OF this]
  show "case decodeFloat32 E U h (Number n) w of
              (r, h', w') \<Rightarrow>
                r = Inl (Error ''too much lost data'') \<and> h' = h
                \<and> trace w' = trace w @ scratch_calls E h w"
    by (auto simp: decodeFloat32_def priv_decode_def split: prod.splits)
next
  assume "n * 2 \<le> int p_pcm_len"
  then have small: "\<not> n * 2 > int p_data_len"
    by (simp add: p_pcm_len_def pcm_len_def p_data_len_def data_len_def)
  show "case enter E h w of
              (p_dec, w_in) \<Rightarrow>
                (case opus_decode E p_dec 0 0 (p_pcm U) n 0 (heap w_in) of
                   (ret, h_out) \<Rightarrow>
                     (case decodeInt16 E U h (Number n) w of
                        (r, h', w') \<Rightarrow>
                          trace w' = trace w_in @ [Call_opus_decode p_dec 0 0 (p_pcm U) n 0]
                            @ (if ret < 0 then [Call_opus_strerror ret] else [])
                            @ (case state h of Pointer q \<Rightarrow> [] | Snapshot s \<Rightarrow> [Call_free p_dec])))"
    using nz small
    by (auto simp: decodeInt16_def priv_decode_def withState_enter_leave decode_func_def
          decode_data_Number16 split: prod.splits dest: leave_trace)
next
  assume "n * 4 \<le> int p_pcm_len"
  then have small: "\<not> n * 4 > int p_data_len"
    by (simp add: p_pcm_len_def pcm_len_def p_data_len_def data_len_def)
  show "case enter E h w of
              (p_dec, w_in) \<Rightarrow>
                (case opus_decode_float E p_dec 0 0 (p_pcm U) n 0 (heap w_in) of
                   (ret, h_out) \<Rightarrow>
                     (case decodeFloat32 E U h (Number n) w of
                        (r, h', w') \<Rightarrow>
                          trace w' = trace w_in @ [Call_opus_decode_float p_dec 0 0 (p_pcm U) n 0]
                            @ (if ret < 0 then [Call_opus_strerror ret] else [])
                            @ (case state h of Pointer q \<Rightarrow> [] | Snapshot s \<Rightarrow> [Call_free p_dec])))"
    using nz small
    by (auto simp: decodeFloat32_def priv_decode_def withState_enter_leave decode_func_def
          decode_data_Number32 split: prod.splits dest: leave_trace)
qed

theorem lost_count_decode_witness:
  "(960 :: int) \<noteq> 0
   \<and> trace (snd (snd (decodeInt16 frame_counter utils0
        \<lparr>rate = 48000, channels = 1, state = Pointer 107528\<rparr> (Number 960) world2))) =
       [Call_opus_decode 107528 0 0 8 960 0]
   \<and> (40000 :: int) \<noteq> 0
   \<and> fst (decodeInt16 frame_counter utils0
        \<lparr>rate = 48000, channels = 1, state = Pointer 107528\<rparr> (Number 40000) world2)
       = Inl (Error ''too much lost data'')
   \<and> trace (snd (snd (decodeInt16 frame_counter utils0
        \<lparr>rate = 48000, channels = 1, state = Pointer 107528\<rparr> (Number 40000) world2))) = []"
  using lost_count_decode [where n = 960 and E = frame_counter and U = utils0 and w = world2
      and h = "\<lparr>rate = 48000, channels = 1, state = Pointer 107528\<rparr>"]
    lost_count_decode [where n = 40000 and E = frame_counter and U = utils0 and w = world2
      and h = "\<lparr>rate = 48000, channels = 1, state = Pointer 107528\<rparr>"]
  by (simp add: enter_def fc_conceal utils0_def p_pcm_len_def pcm_len_def p_data_len_def
        data_len_def scratch_calls_def world2_def split: prod.splits)

text \<open>
  Claim C2 as stated fails at the count 0: the count is replaced by the duration of the
  last packet, here 960, and the engine conceals 960 samples, not 0.
\<close>

theorem zero_count_counterexample:
  "(0 :: int) * 2 \<le> int p_pcm_len
   \<and> trace (snd (snd (decodeInt16 frame_counter utils0
        \<lparr>rate = 48000, channels = 1, state = Pointer 107528\<rparr> (Number 0) world2))) =
       [Call_malloc 4 107536, Call_malloc 4 107544,
        Call_opus_decoder_ctl 107528 4039 107544, Call_free 107544, Call_free 107536,
        Call_opus_decode 107528 0 0 8 960 0]
   \<and> Call_opus_decode 107528 0 0 8 0 0 \<notin> set (trace (snd (snd (decodeInt16 frame_counter utils0
        \<lparr>rate = 48000, channels = 1, state = Pointer 107528\<rparr> (Number 0) world2))))"
proof -
  have e: "enter frame_counter \<lparr>rate = 48000, channels = 1, state = Pointer 107528\<rparr> world2
             = (107528, world2)"
    by (simp add: enter_def)
  have le: "(960 :: int) * 2 \<le> int p_data_len"
    by (simp add: p_data_len_def data_len_def)
  have t: "trace (snd (snd (decodeInt16 frame_counter utils0
        \<lparr>rate = 48000, channels = 1, state = Pointer 107528\<rparr> (Number 0) world2))) =
       [Call_malloc 4 107536, Call_malloc 4 107544,
        Call_opus_decoder_ctl 107528 4039 107544, Call_free 107544, Call_free 107536,
        Call_opus_decode 107528 0 0 8 960 0]"
    using decodeInt16_falsy_trace [OF _ e query_world2_pair le, of "Number 0" utils0] query_world2
    by (simp add: fc_conceal utils0_def)
  show ?thesis
    by (simp add: t p_pcm_len_def pcm_len_def)
qed

text \<open>
  The limit the code checks the count against is the capacity of the packet scratch
  region: a count of 25000 samples of width 2, 50000 bytes and so more than the PCM
  scratch region holds, is handed to the engine.
\<close>

lemma lost_count_in_the_gap:
  "(25000 :: int) * 2 > int p_pcm_len
   \<and> trace (snd (snd (decodeInt16 frame_counter utils0
        \<lparr>rate = 48000, channels = 1, state = Pointer 107528\<rparr> (Number 25000) world2)))
     = [Call_opus_decode 107528 0 0 8 25000 0]"
  by (simp add: decodeInt16_def priv_decode_def withState_enter_leave enter_def decode_func_def
        decode_data_Number16 fc_conceal leave_trace_snd utils0_def world2_def
        p_pcm_len_def pcm_len_def p_data_len_def data_len_def split: prod.splits)

section \<open>The number 0 as input\<close>

text \<open>
  Claim C10, amended. \<open>decodeInt16\<close> and \<open>decodeFloat32\<close> on the number 0 do what they
  do on an absent input (\<^verbatim>\<open>undefined\<close>, \<^verbatim>\<open>null\<close>). The control query 4039 is made first;
  when it fails, its error is the result; when it reports \<open>n\<close> samples (and \<open>n * width\<close>
  is within the limit the code checks), the engine's decode is called with \<open>n\<close> as the
  frame size: with 0 when the query reports 0, and with no other frame size than the
  one reported.
\<close>

theorem zero_is_absent:
  "decodeInt16 E U h (Number 0) w = decodeInt16 E U h Undefined w
   \<and> decodeInt16 E U h (Number 0) w = decodeInt16 E U h Null w
   \<and> decodeFloat32 E U h (Number 0) w = decodeFloat32 E U h Undefined w
   \<and> decodeFloat32 E U h (Number 0) w = decodeFloat32 E U h Null w
   \<and> (case enter E h w of
         (p_dec, w_in) \<Rightarrow>
           (case priv_getLastPacketDuration E p_dec w_in of
              (Inl e, w_q) \<Rightarrow>
                fst (decodeInt16 E U h (Number 0) w) = Inl e
                \<and> fst (decodeFloat32 E U h (Number 0) w) = Inl e
            | (Inr n, w_q) \<Rightarrow>
                trace w_q = trace w_in @
                  [Call_malloc 4 (place E (live w_in) 4),
                   Call_malloc 4 (place E (live w_in @ [(place E (live w_in) 4, 4)]) 4),
                   Call_opus_decoder_ctl p_dec 4039
                     (place E (live w_in @ [(place E (live w_in) 4, 4)]) 4),
                   Call_free (place E (live w_in @ [(place E (live w_in) 4, 4)]) 4),
                   Call_free (place E (live w_in) 4)]
                \<and> (n * 2 \<le> int p_data_len \<longrightarrow>
                     (case opus_decode E p_dec 0 0 (p_pcm U) n 0 (heap w_q) of
                        (ret, h_out) \<Rightarrow>
                          trace (snd (snd (decodeInt16 E U h (Number 0) w))) =
                            trace w_q @ [Call_opus_decode p_dec 0 0 (p_pcm U) n 0]
                            @ (if ret < 0 then [Call_opus_strerror ret] else [])
                            @ (case state h of Pointer q \<Rightarrow> [] | Snapshot s \<Rightarrow> [Call_free p_dec])))
                \<and> (n * 4 \<le> int p_data_len \<longrightarrow>
                     (case opus_decode_float E p_dec 0 0 (p_pcm U) n 0 (heap w_q) of
                        (ret, h_out) \<Rightarrow>
                          trace (snd (snd (decodeFloat32 E U h (Number 0) w))) =
                            trace w_q @ [Call_opus_decode_float p_dec 0 0 (p_pcm U) n 0]
                            @ (if ret < 0 then [Call_opus_strerror ret] else [])
                            @ (case state h of Pointer q \<Rightarrow> [] | Snapshot s \<Rightarrow> [Call_free p_dec])))))"
proof -
  have same: "decode_func E U h (Number 0) bps dd = decode_func E U h Undefined bps dd"
    "decode_func E U h (Number 0) bps dd = decode_func E U h Null bps dd" for bps dd
    by (intro ext, simp add: decode_func_def)+
  obtain p_dec w_in where e: "enter E h w = (p_dec, w_in)" by (cases "enter E h w")
  obtain q w_q where g: "priv_getLastPacketDuration E p_dec w_in = (q, w_q)"
    by (cases "priv_getLastPacketDuration E p_dec w_in")
  have rest: "case q of
      Inl e \<Rightarrow>
        fst (decodeInt16 E U h (Number 0) w) = Inl e
        \<and> fst (decodeFloat32 E U h (Number 0) w) = Inl e
    | Inr n \<Rightarrow>
        trace w_q = trace w_in @
          [Call_malloc 4 (place E (live w_in) 4),
           Call_malloc 4 (place E (live w_in @ [(place E (live w_in) 4, 4)]) 4),
           Call_opus_decoder_ctl p_dec 4039
             (place E (live w_in @ [(place E (live w_in) 4, 4)]) 4),
           Call_free (place E (live w_in @ [(place E (live w_in) 4, 4)]) 4),
           Call_free (place E (live w_in) 4)]
        \<and> (n * 2 \<le> int p_data_len \<longrightarrow>
             (case opus_decode E p_dec 0 0 (p_pcm U) n 0 (heap w_q) of
                (ret, h_out) \<Rightarrow>
                  trace (snd (snd (decodeInt16 E U h (Number 0) w))) =
                    trace w_q @ [Call_opus_decode p_dec 0 0 (p_pcm U) n 0]
                    @ (if ret < 0 then [Call_opus_strerror ret] else [])
                    @ (case state h of Pointer q \<Rightarrow> [] | Snapshot s \<Rightarrow> [Call_free p_dec])))
        \<and> (n * 4 \<le> int p_data_len \<longrightarrow>
             (case opus_decode_float E p_dec 0 0 (p_pcm U) n 0 (heap w_q) of
                (ret, h_out) \<Rightarrow>
                  trace (snd (snd (decodeFloat32 E U h (Number 0) w))) =
                    trace w_q @ [Call_opus_decode_float p_dec 0 0 (p_pcm U) n 0]
                    @ (if ret < 0 then [Call_opus_strerror ret] else [])
                    @ (case state h of Pointer q \<Rightarrow> [] | Snapshot s \<Rightarrow> [Call_free p_dec])))"
  proof (cases q)
    case (Inl err)
    with e g show ?thesis
      by (simp add: decodeInt16_def decodeFloat32_def priv_decode_def withState_enter_leave
            decode_func_falsy split: prod.splits)
  next
    case (Inr n)
    with g have g': "priv_getLastPacketDuration E p_dec w_in = (Inr n, w_q)" by simp
    have t: "trace w_q = trace w_in @
          [Call_malloc 4 (place E (live w_in) 4),
           Call_malloc 4 (place E (live w_in @ [(place E (live w_in) 4, 4)]) 4),
           Call_opus_decoder_ctl p_dec 4039
             (place E (live w_in @ [(place E (live w_in) 4, 4)]) 4),
           Call_free (place E (live w_in @ [(place E (live w_in) 4, 4)]) 4),
           Call_free (place E (live w_in) 4)]"
      by (rule query_trace [OF g'])
    have d16: "n * 2 \<le> int p_data_len \<Longrightarrow>
             (case opus_decode E p_dec 0 0 (p_pcm U) n 0 (heap w_q) of
                (ret, h_out) \<Rightarrow>
                  trace (snd (snd (decodeInt16 E U h (Number 0) w))) =
                    trace w_q @ [Call_opus_decode p_dec 0 0 (p_pcm U) n 0]
                    @ (if ret < 0 then [Call_opus_strerror ret] else [])
                    @ (case state h of Pointer q \<Rightarrow> [] | Snapshot s \<Rightarrow> [Call_free p_dec]))"
      using decodeInt16_falsy_trace [OF _ e g', of "Number 0" U] by simp
    have d32: "n * 4 \<le> int p_data_len \<Longrightarrow>
             (case opus_decode_float E p_dec 0 0 (p_pcm U) n 0 (heap w_q) of
                (ret, h_out) \<Rightarrow>
                  trace (snd (snd (decodeFloat32 E U h (Number 0) w))) =
                    trace w_q @ [Call_opus_decode_float p_dec 0 0 (p_pcm U) n 0]
                    @ (if ret < 0 then [Call_opus_strerror ret] else [])
                    @ (case state h of Pointer q \<Rightarrow> [] | Snapshot s \<Rightarrow> [Call_free p_dec]))"
      using decodeFloat32_falsy_trace [OF _ e g', of "Number 0" U] by simp
    from t d16 d32 Inr show ?thesis by simp
  qed
  have eqs: "decodeInt16 E U h (Number 0) w = decodeInt16 E U h Undefined w"
    "decodeInt16 E U h (Number 0) w = decodeInt16 E U h Null w"
    "decodeFloat32 E U h (Number 0) w = decodeFloat32 E U h Undefined w"
    "decodeFloat32 E U h (Number 0) w = decodeFloat32 E U h Null w"
    by (simp_all only: decodeInt16_def decodeFloat32_def priv_decode_def same [symmetric])
  show ?thesis
    apply (intro conjI eqs)
    using rest by (simp add: e g)
qed

theorem zero_is_absent_witness:
  "decodeInt16 frame_counter utils0 \<lparr>rate = 48000, channels = 1, state = Pointer 107528\<rparr>
       (Number 0) world2
     = decodeInt16 frame_counter utils0 \<lparr>rate = 48000, channels = 1, state = Pointer 107528\<rparr>
       Undefined world2
   \<and> (960 :: int) * 2 \<le> int p_data_len
   \<and> trace (snd (snd (decodeInt16 frame_counter utils0
        \<lparr>rate = 48000, channels = 1, state = Pointer 107528\<rparr> (Number 0) world2))) =
       [Call_malloc 4 107536, Call_malloc 4 107544,
        Call_opus_decoder_ctl 107528 4039 107544, Call_free 107544, Call_free 107536,
        Call_opus_decode 107528 0 0 8 960 0]"
proof -
  note z = zero_is_absent [where E = frame_counter and U = utils0 and w = world2
        and h = "\<lparr>rate = 48000, channels = 1, state = Pointer 107528\<rparr>"]
  have le: "(960 :: int) * 2 \<le> int p_data_len"
    by (simp add: p_data_len_def data_len_def)
  have eq: "decodeInt16 frame_counter utils0 \<lparr>rate = 48000, channels = 1, state = Pointer 107528\<rparr>
       (Number 0) world2
     = decodeInt16 frame_counter utils0 \<lparr>rate = 48000, channels = 1, state = Pointer 107528\<rparr>
       Undefined world2"
    by (rule z [THEN conjunct1])
  have tr: "trace (snd (snd (decodeInt16 frame_counter utils0
        \<lparr>rate = 48000, channels = 1, state = Pointer 107528\<rparr> (Number 0) world2))) =
       [Call_malloc 4 107536, Call_malloc 4 107544,
        Call_opus_decoder_ctl 107528 4039 107544, Call_free 107544, Call_free 107536,
        Call_opus_decode 107528 0 0 8 960 0]"
    using z [THEN conjunct2, THEN conjunct2, THEN conjunct2, THEN conjunct2] query_world2 le
    by (simp add: enter_def split_beta fc_conceal utils0_def)
  from eq le tr show ?thesis by (intro conjI)
qed

text \<open>
  Claim C10 as stated fails on a decoder that has decoded nothing yet: the query reports
  0, and the engine is asked to conceal 0 samples.
\<close>

theorem zero_on_fresh_decoder_counterexample:
  "trace (snd (snd (decodeInt16 frame_counter utils0
        \<lparr>rate = 48000, channels = 1, state = Pointer 107528\<rparr> (Number 0) world3))) =
       [Call_malloc 4 107536, Call_malloc 4 107544,
        Call_opus_decoder_ctl 107528 4039 107544, Call_free 107544, Call_free 107536,
        Call_opus_decode 107528 0 0 8 0 0]
   \<and> fst (decodeInt16 frame_counter utils0
        \<lparr>rate = 48000, channels = 1, state = Pointer 107528\<rparr> (Number 0) world3) = Inr []"
proof -
  have e: "enter frame_counter \<lparr>rate = 48000, channels = 1 :: int, state = Pointer 107528\<rparr> world3
             = (107528, world3)"
    by (simp add: enter_def)
  have le: "(0 :: int) * 2 \<le> int p_data_len"
    by simp
  have t: "trace (snd (snd (decodeInt16 frame_counter utils0
        \<lparr>rate = 48000, channels = 1, state = Pointer 107528\<rparr> (Number 0) world3))) =
       [Call_malloc 4 107536, Call_malloc 4 107544,
        Call_opus_decoder_ctl 107528 4039 107544, Call_free 107544, Call_free 107536,
        Call_opus_decode 107528 0 0 8 0 0]"
    using decodeInt16_falsy_trace [OF _ e query_world3_pair le, of "Number 0" utils0] query_world3
    by (simp add: fc_conceal utils0_def)
  have r: "fst (decodeInt16 frame_counter utils0
        \<lparr>rate = 48000, channels = 1, state = Pointer 107528\<rparr> (Number 0) world3) = Inr []"
    using query_world3
    by (simp add: decodeInt16_def priv_decode_def withState_enter_leave e decode_func_falsy
          decode_data_Number16 fc_conceal HEAPU8_slice_def split_beta)
  from t r show ?thesis by simp
qed

section \<open>An empty chunk on the decoder's stream\<close>

text \<open>
  Claim C3. What the code does with an empty chunk: the chunk is a \<^verbatim>\<open>Buffer\<close>, so it
  is decoded as a packet. The engine's decode is called once, on the packet scratch
  address with length 0 and the cap \<open>p_pcm_len div channels div width\<close> as frame size,
  and these are all the calls made besides those for the scratch state block: the
  control query for the duration of the last packet is not made.
\<close>

theorem empty_chunk_decoded_as_packet:
  "(case enter E h w of
      (p_dec, w_in) \<Rightarrow>
        (case opus_decode E p_dec (p_data U) 0 (p_pcm U)
                (int p_pcm_len div channels h div 2) 0 (heap w_in) of
           (n, h_out) \<Rightarrow>
             trace (snd (snd (DecoderStream_transform E U Int16 h [] w))) =
               trace w_in
               @ [Call_opus_decode p_dec (p_data U) 0 (p_pcm U)
                    (int p_pcm_len div channels h div 2) 0]
               @ (if n < 0 then [Call_opus_strerror n] else [])
               @ (case state h of Pointer q \<Rightarrow> [] | Snapshot s \<Rightarrow> [Call_free p_dec]))
        \<and> (case opus_decode_float E p_dec (p_data U) 0 (p_pcm U)
                (int p_pcm_len div channels h div 4) 0 (heap w_in) of
           (n, h_out) \<Rightarrow>
             trace (snd (snd (DecoderStream_transform E U Float32 h [] w))) =
               trace w_in
               @ [Call_opus_decode_float p_dec (p_data U) 0 (p_pcm U)
                    (int p_pcm_len div channels h div 4) 0]
               @ (if n < 0 then [Call_opus_strerror n] else [])
               @ (case state h of Pointer q \<Rightarrow> [] | Snapshot s \<Rightarrow> [Call_free p_dec])))"
proof -
  have le: "length ([] :: byte list) \<le> p_data_len" by simp
  show ?thesis
    by (auto simp: DecoderStream_transform_def decodeInt16_def decodeFloat32_def priv_decode_def
          withState_enter_leave decode_func_Buffer16 [OF le] decode_func_Buffer32 [OF le]
          leave_trace_snd split: prod.splits)
qed

theorem empty_chunk_decoded_as_packet_witness:
  "trace (snd (snd (DecoderStream_transform frame_counter utils0 Int16
        \<lparr>rate = 48000, channels = 1, state = Pointer 107528\<rparr> [] world2)))
     = [Call_opus_decode 107528 46088 0 8 23040 0]"
  using empty_chunk_decoded_as_packet [where E = frame_counter and U = utils0 and w = world2
      and h = "\<lparr>rate = 48000, channels = 1, state = Pointer 107528\<rparr>"]
  by (simp add: enter_def fc_conceal_packet utils0_def p_pcm_len_def pcm_len_def world2_def
        split: prod.splits)

section \<open>Encoding, then decoding\<close>

text \<open>
  Claim C4. What the code does on a round trip: \<open>encode\<close> hands the engine
  \<open>length xs div channels\<close> as the frame size, the number of samples per channel. When
  the engine's decode gives that number back for the packet, \<open>decodeInt16\<close> returns an
  array of that many elements: \<open>length xs div channels\<close>, which for two channels is
  half the length of the input.
\<close>

theorem roundtrip_sample_count:
  assumes "length xs * 2 \<le> p_pcm_len"
    and "fst (encode E U enc (Int16Array xs) w) = Inr packet"
    and "length packet \<le> p_data_len"
    and "0 < channels enc"
    and "case enter E dec (snd (snd (encode E U enc (Int16Array xs) w))) of
           (p_dec, w_d) \<Rightarrow>
             fst (opus_decode E p_dec (p_data U) (int (length packet)) (p_pcm U)
                    (int p_pcm_len div channels dec div 2) 0
                    (HEAPU8_set packet (p_data U) (heap w_d)))
               = int (length xs) div channels enc"
  shows "Call_opus_encode (fst (enter E enc w)) (p_pcm U) (int (length xs) div channels enc)
             (p_data U) (int p_data_len)
           \<in> set (trace (snd (snd (encode E U enc (Int16Array xs) w))))
         \<and> (\<exists>ys. fst (decodeInt16 E U dec (Buffer packet)
                       (snd (snd (encode E U enc (Int16Array xs) w)))) = Inr ys
                 \<and> int (length ys) = int (length xs) div channels enc)"
proof
  show "Call_opus_encode (fst (enter E enc w)) (p_pcm U) (int (length xs) div channels enc)
             (p_data U) (int p_data_len)
           \<in> set (trace (snd (snd (encode E U enc (Int16Array xs) w))))"
    by (rule encode_Int16_calls_engine [OF assms(1) prod.collapse [symmetric]])
next
  obtain p_dec w_d where e: "enter E dec (snd (snd (encode E U enc (Int16Array xs) w))) = (p_dec, w_d)"
    by (cases "enter E dec (snd (snd (encode E U enc (Int16Array xs) w)))")
  from assms(4) have nonneg: "0 \<le> int (length xs) div channels enc"
    by (simp add: pos_imp_zdiv_nonneg_iff)
  from assms(5) e have c: "fst (opus_decode E p_dec (p_data U) (int (length packet)) (p_pcm U)
                    (int p_pcm_len div channels dec div 2) 0
                    (HEAPU8_set packet (p_data U) (heap w_d)))
               = int (length xs) div channels enc"
    by simp
  show "\<exists>ys. fst (decodeInt16 E U dec (Buffer packet)
                       (snd (snd (encode E U enc (Int16Array xs) w)))) = Inr ys
                 \<and> int (length ys) = int (length xs) div channels enc"
    by (rule decodeInt16_Buffer_length [OF assms(3) e c nonneg])
qed

theorem roundtrip_sample_count_witness:
  "length (replicate 240 (0 :: 16 word)) = 240
   \<and> fst (encode frame_counter utils0
          \<lparr>rate = 48000, channels = 2, state = Snapshot [0, 0, 0, 0, 0, 0, 0, 0], application = 2049\<rparr>
          (Int16Array (replicate 240 0)) world1) = Inr [120, 0]
   \<and> (\<exists>ys. fst (decodeInt16 frame_counter utils0
                  \<lparr>rate = 48000, channels = 2, state = Snapshot [0, 0, 0, 0, 0, 0, 0, 0]\<rparr>
                  (Buffer [120, 0])
                  (snd (snd (encode frame_counter utils0
                     \<lparr>rate = 48000, channels = 2, state = Snapshot [0, 0, 0, 0, 0, 0, 0, 0],
                        application = 2049\<rparr>
                     (Int16Array (replicate 240 0)) world1)))) = Inr ys
            \<and> length ys = 120)"
proof -
  have le: "length (replicate 240 (0 :: 16 word)) * 2 \<le> p_pcm_len"
    by (simp add: p_pcm_len_def pcm_len_def)
  have pl: "length [120, 0 :: byte] \<le> p_data_len"
    by (simp add: p_data_len_def data_len_def)
  have ch: "0 < channels \<lparr>rate = 48000, channels = 2 :: int,
      state = Snapshot [0, 0, 0, 0, 0, 0, 0, 0], application = 2049\<rparr>"
    by simp
  have c: "case enter frame_counter \<lparr>rate = 48000, channels = 2, state = Snapshot [0, 0, 0, 0, 0, 0, 0, 0]\<rparr>
             (snd (snd (encode frame_counter utils0
                     \<lparr>rate = 48000, channels = 2, state = Snapshot [0, 0, 0, 0, 0, 0, 0, 0],
                        application = 2049\<rparr>
                     (Int16Array (replicate 240 0)) world1))) of
           (p_dec, w_d) \<Rightarrow>
             fst (opus_decode frame_counter p_dec (p_data utils0) (int (length [120, 0 :: byte]))
                    (p_pcm utils0)
                    (int p_pcm_len div channels \<lparr>rate = 48000, channels = 2,
                        state = Snapshot [0, 0, 0, 0, 0, 0, 0, 0]\<rparr> div 2) 0
                    (HEAPU8_set [120, 0] (p_data utils0) (heap w_d)))
               = int (length (replicate 240 (0 :: 16 word))) div channels \<lparr>rate = 48000, channels = 2,
                   state = Snapshot [0, 0, 0, 0, 0, 0, 0, 0], application = 2049\<rparr>"
    by (simp add: fc_decode_packet p_pcm_len_def pcm_len_def utils0_def split: prod.splits)
  show ?thesis
    using roundtrip_sample_count [OF le fc_encode_packet pl ch c] fc_encode_packet
    by simp
qed

section \<open>The stream adapters\<close>

text \<open>
  Claim C9, amended. A call of \<^verbatim>\<open>_transform\<close> makes one callback and hands it what the
  direct call gives. For the encoder, on a chunk whose offset in its buffer the element
  width divides, that is \<open>encode\<close> on the chunk's bytes read as samples of the mode;
  for the decoder it is \<open>decodeInt16\<close> or \<open>decodeFloat32\<close> on the chunk, the array as
  bytes. Where the direct call returns, its result is the chunk pushed; where it throws,
  the callback is given the error and no chunk is pushed. The handle and the world are
  left as the direct call leaves them. A mode name other than "Int16" and "Float32"
  makes the construction of either adapter fail.
\<close>

theorem stream_outcomes:
  "(byteOffset chunk mod BYTES_PER_ELEMENT m = 0 \<longrightarrow>
      (case encode E U enc (reinterpret m (bytes chunk)) w of
         (r, enc', w') \<Rightarrow>
           EncoderStream_transform E U m enc chunk w = (Callback r, enc', w')
           \<and> pushed (Callback r) = (case r of Inl e \<Rightarrow> [] | Inr packet \<Rightarrow> [packet])))
   \<and> (case decodeInt16 E U dec (Buffer bs) w of
         (r, dec', w') \<Rightarrow>
           DecoderStream_transform E U Int16 dec bs w
             = (map_sum id (\<lambda>array. concat (map le_bytes16 array)) r, dec', w')
           \<and> pushed (Callback (map_sum id (\<lambda>array. concat (map le_bytes16 array)) r))
             = (case r of Inl e \<Rightarrow> [] | Inr array \<Rightarrow> [concat (map le_bytes16 array)]))
   \<and> (case decodeFloat32 E U dec (Buffer bs) w of
         (r, dec', w') \<Rightarrow>
           DecoderStream_transform E U Float32 dec bs w
             = (map_sum id (\<lambda>array. concat (map le_bytes32 array)) r, dec', w')
           \<and> pushed (Callback (map_sum id (\<lambda>array. concat (map le_bytes32 array)) r))
             = (case r of Inl e \<Rightarrow> [] | Inr array \<Rightarrow> [concat (map le_bytes32 array)]))
   \<and> (name \<noteq> ''Int16'' \<and> name \<noteq> ''Float32'' \<longrightarrow>
        EncoderStream enc (Text name) = Inl (ModeTypeError (Text name))
        \<and> DecoderStream dec (Text name) = Inl (ModeTypeError (Text name)))"
  by (auto simp: EncoderStream_transform_def DecoderStream_transform_def EncoderStream_def
        DecoderStream_def stream_mode_other split: prod.splits sum.splits)

theorem stream_outcomes_witness:
  "(0 :: nat) mod BYTES_PER_ELEMENT Int16 = 0
   \<and> fst (EncoderStream_transform frame_counter utils0 Int16
        \<lparr>rate = 48000, channels = 1 :: int, state = Pointer 107528, application = 2049\<rparr>
        \<lparr>bytes = [1, 2, 3, 4], byteOffset = 0\<rparr> world2) = Callback (Inr [2, 0])
   \<and> pushed (fst (EncoderStream_transform frame_counter utils0 Int16
        \<lparr>rate = 48000, channels = 1 :: int, state = Pointer 107528, application = 2049\<rparr>
        \<lparr>bytes = [1, 2, 3, 4], byteOffset = 0\<rparr> world2)) = [[2, 0]]
   \<and> fst (DecoderStream_transform frame_counter utils0 Int16
        \<lparr>rate = 48000, channels = 1 :: int, state = Pointer 107528\<rparr> [2, 0] world2)
     = map_sum id (\<lambda>array. concat (map le_bytes16 array))
         (fst (decodeInt16 frame_counter utils0
            \<lparr>rate = 48000, channels = 1 :: int, state = Pointer 107528\<rparr> (Buffer [2, 0]) world2))
   \<and> ''asd'' \<noteq> ''Int16'' \<and> ''asd'' \<noteq> ''Float32''
   \<and> EncoderStream \<lparr>rate = 48000, channels = 1 :: int, state = Pointer 107528, application = 2049\<rparr>
        (Text ''asd'') = Inl (ModeTypeError (Text ''asd''))
   \<and> DecoderStream \<lparr>rate = 48000, channels = 1 :: int, state = Pointer 107528\<rparr>
        (Text ''asd'') = Inl (ModeTypeError (Text ''asd''))"
proof -
  note s = stream_outcomes [where E = frame_counter and U = utils0 and m = Int16 and w = world2
      and chunk = "\<lparr>bytes = [1, 2, 3, 4], byteOffset = 0\<rparr>" and bs = "[2, 0]"
      and name = "''asd''"
      and enc = "\<lparr>rate = 48000, channels = 1 :: int, state = Pointer 107528, application = 2049\<rparr>"
      and dec = "\<lparr>rate = 48000, channels = 1 :: int, state = Pointer 107528\<rparr>"]
  have al: "(0 :: nat) mod BYTES_PER_ELEMENT Int16 = 0"
    by simp
  have enc: "fst (EncoderStream_transform frame_counter utils0 Int16
        \<lparr>rate = 48000, channels = 1 :: int, state = Pointer 107528, application = 2049\<rparr>
        \<lparr>bytes = [1, 2, 3, 4], byteOffset = 0\<rparr> world2) = Callback (Inr [2, 0])"
    using s [THEN conjunct1] fc_encode_two
    by (simp add: bytes_to16_example del: bytes_to16.simps split: prod.splits)
  have dec: "fst (DecoderStream_transform frame_counter utils0 Int16
        \<lparr>rate = 48000, channels = 1 :: int, state = Pointer 107528\<rparr> [2, 0] world2)
     = map_sum id (\<lambda>array. concat (map le_bytes16 array))
         (fst (decodeInt16 frame_counter utils0
            \<lparr>rate = 48000, channels = 1 :: int, state = Pointer 107528\<rparr> (Buffer [2, 0]) world2))"
    using s [THEN conjunct2, THEN conjunct1]
    by (simp split: prod.splits)
  have names: "''asd'' \<noteq> ''Int16'' \<and> ''asd'' \<noteq> ''Float32''"
    by simp
  have mode: "EncoderStream \<lparr>rate = 48000, channels = 1 :: int, state = Pointer 107528, application = 2049\<rparr>
        (Text ''asd'') = Inl (ModeTypeError (Text ''asd''))
   \<and> DecoderStream \<lparr>rate = 48000, channels = 1 :: int, state = Pointer 107528\<rparr>
        (Text ''asd'') = Inl (ModeTypeError (Text ''asd''))"
    using s [THEN conjunct2, THEN conjunct2, THEN conjunct2] names
    by blast
  from al enc dec names mode show ?thesis by simp
qed

text \<open>
  Claim C9 as stated fails for a chunk on which the direct call throws: a chunk of 46082
  bytes is handed to an encoder's stream in mode Int16, the callback is given the error,
  and no chunk comes out.
\<close>

theorem failed_chunk_counterexample:
  "length (replicate 46082 (0 :: byte)) = 46082
   \<and> (0 :: nat) mod BYTES_PER_ELEMENT Int16 = 0
   \<and> fst (EncoderStream_transform frame_counter utils0 Int16
        \<lparr>rate = 48000, channels = 1 :: int, state = Snapshot [0, 0, 0, 0, 0, 0, 0, 0], application = 2049\<rparr>
        \<lparr>bytes = replicate 46082 0, byteOffset = 0\<rparr> world1)
       = Callback (Inl (Error ''pcm array too large''))
   \<and> pushed (fst (EncoderStream_transform frame_counter utils0 Int16
        \<lparr>rate = 48000, channels = 1 :: int, state = Snapshot [0, 0, 0, 0, 0, 0, 0, 0], application = 2049\<rparr>
        \<lparr>bytes = replicate 46082 0, byteOffset = 0\<rparr> world1)) = []"
proof -
  have big: "length (bytes_to16 (replicate 46082 0)) * 2 > p_pcm_len"
    by (simp add: p_pcm_len_def pcm_len_def)
  then have "\<And>p w. encode_func frame_counter utils0
        \<lparr>rate = 48000, channels = 1 :: int, state = Snapshot [0, 0, 0, 0, 0, 0, 0, 0], application = 2049\<rparr>
        (Int16Array (bytes_to16 (replicate 46082 0))) p w = (Inl (Error ''pcm array too large''), w)"
    by (simp add: encode_func_def)
  from withState_throws_at_once [where E = frame_counter and w = world1
      and h = "\<lparr>rate = 48000, channels = 1 :: int, state = Snapshot [0, 0, 0, 0, 0, 0, 0, 0], application = 2049\<rparr>"
      and func = "encode_func frame_counter utils0
        \<lparr>rate = 48000, channels = 1 :: int, state = Snapshot [0, 0, 0, 0, 0, 0, 0, 0], application = 2049\<rparr>
        (Int16Array (bytes_to16 (replicate 46082 0)))", OF this]
  have "fst (encode frame_counter utils0
        \<lparr>rate = 48000, channels = 1 :: int, state = Snapshot [0, 0, 0, 0, 0, 0, 0, 0], application = 2049\<rparr>
        (Int16Array (bytes_to16 (replicate 46082 0))) world1) = Inl (Error ''pcm array too large'')"
    by (simp add: encode_def split: prod.splits)
  then show ?thesis
    by (simp add: EncoderStream_transform_def split_beta)
qed

text \<open>
  On the encoder's side the typed array is built outside \<^verbatim>\<open>try\<close>: for a chunk at an
  offset the element width does not divide, the error leaves \<^verbatim>\<open>_transform\<close> and no
  callback is made.
\<close>

lemma misaligned_chunk_escapes:
  "EncoderStream_transform E U Int16 enc \<lparr>bytes = [1, 2, 3, 4], byteOffset = 1\<rparr> w
     = (Uncaught (RangeError ''start offset of Int16Array should be a multiple of 2''), enc, w)"
  by (simp add: EncoderStream_transform_def)

end
